(* ===== verification/Prelude.thy ===== *)
theory Prelude
  imports Main
begin

text \<open>
  Shared vocabulary of the development: C++ raw pointers, a heap of objects addressed by
  natural numbers with an allocation limit, and the heap primitives the plugin code uses
  (\<open>new\<close>, dereference, field write-back, \<open>delete\<close>). Every undefined behaviour of
  C++ that these primitives can meet (a null dereference, a dangling dereference, a
  second \<open>delete\<close>) is an error value of \<open>heap_error\<close>, so that a theorem saying an
  operation returns \<open>Inr\<close> says that the C++ code does not meet it.
  The generic lemmas here (freshness of \<open>new\<close>, the effect of a sequence of guarded
  deletes on distinct live objects, preservation of heap well-formedness) are the ones
  the component theories build on.
\<close>

named_theorems heap_simps "equations of the heap primitives on concrete arguments"

subsection \<open>Pointers and the heap\<close>

datatype ptr = NULL | Ptr nat

datatype heap_error =
    NullDeref
  | UseAfterFree nat
  | WrongType nat
  | DoubleDelete nat

record 'o heap =
  objs :: "nat \<rightharpoonup> 'o"
  lim :: nat

type_synonym 'a except = "heap_error + 'a"

text \<open>Sequencing of computations that may fail: the first error is the result.\<close>

definition bindE :: "'a except \<Rightarrow> ('a \<Rightarrow> 'b except) \<Rightarrow> 'b except" where
  "bindE m f = (case m of Inl e \<Rightarrow> Inl e | Inr x \<Rightarrow> f x)"

text \<open>
  A heap is well formed when every allocated address lies below the allocation limit;
  \<open>new\<close> hands out the limit and raises it, so it never reuses a live address.
\<close>

definition heap_wf :: "'o heap \<Rightarrow> bool" where
  "heap_wf h \<longleftrightarrow> (\<forall>a \<in> dom (objs h). a < lim h)"

definition new_obj :: "'o \<Rightarrow> 'o heap \<Rightarrow> ptr \<times> 'o heap" where
  "new_obj x h = (Ptr (lim h), h\<lparr>objs := (objs h)(lim h \<mapsto> x), lim := Suc (lim h)\<rparr>)"

fun live :: "'o heap \<Rightarrow> ptr \<Rightarrow> bool" where
  "live h NULL = False"
| "live h (Ptr a) = (objs h a \<noteq> None)"

fun deref :: "ptr \<Rightarrow> 'o heap \<Rightarrow> 'o except" where
  "deref NULL h = Inl NullDeref"
| "deref (Ptr a) h = (case objs h a of None \<Rightarrow> Inl (UseAfterFree a) | Some x \<Rightarrow> Inr x)"

fun store :: "ptr \<Rightarrow> 'o \<Rightarrow> 'o heap \<Rightarrow> 'o heap except" where
  "store NULL x h = Inl NullDeref"
| "store (Ptr a) x h =
     (case objs h a of None \<Rightarrow> Inl (UseAfterFree a) | Some _ \<Rightarrow> Inr (h\<lparr>objs := (objs h)(a \<mapsto> x)\<rparr>))"

text \<open>\<open>delete p\<close>: a no-op on a null pointer, undefined behaviour on a freed one.\<close>

fun delete_obj :: "ptr \<Rightarrow> 'o heap \<Rightarrow> 'o heap except" where
  "delete_obj NULL h = Inr h"
| "delete_obj (Ptr a) h =
     (case objs h a of None \<Rightarrow> Inl (DoubleDelete a) | Some _ \<Rightarrow> Inr (h\<lparr>objs := (objs h)(a := None)\<rparr>))"

text \<open>The source's idiom \<open>if(p) delete p;\<close>.\<close>

definition delete_if :: "ptr \<Rightarrow> 'o heap \<Rightarrow> 'o heap except" where
  "delete_if q h = (if q = NULL then Inr h else delete_obj q h)"

text \<open>A straight-line sequence of guarded deletes, in the order written.\<close>

fun delete_seq :: "ptr list \<Rightarrow> 'o heap \<Rightarrow> 'o heap except" where
  "delete_seq [] h = Inr h"
| "delete_seq (q # qs) h = bindE (delete_if q h) (delete_seq qs)"

text \<open>The addresses named by a list of pointers, null pointers skipped.\<close>

fun ptr_addrs :: "ptr list \<Rightarrow> nat list" where
  "ptr_addrs [] = []"
| "ptr_addrs (NULL # qs) = ptr_addrs qs"
| "ptr_addrs (Ptr a # qs) = a # ptr_addrs qs"

subsection \<open>Lemmas on the primitives\<close>

lemma bindE_Inl [simp]: "bindE (Inl e) f = Inl e"
  by (simp add: bindE_def)

lemma bindE_Inr [simp]: "bindE (Inr x) f = f x"
  by (simp add: bindE_def)

lemma bindE_eq_Inr: "bindE m f = Inr y \<longleftrightarrow> (\<exists>x. m = Inr x \<and> f x = Inr y)"
  by (cases m) auto

lemma new_obj_simps [heap_simps]:
  "fst (new_obj x h) = Ptr (lim h)"
  "objs (snd (new_obj x h)) = (objs h)(lim h \<mapsto> x)"
  "lim (snd (new_obj x h)) = Suc (lim h)"
  by (simp_all add: new_obj_def)

lemma heap_wf_fresh: "heap_wf h \<Longrightarrow> objs h (lim h) = None"
  by (auto simp: heap_wf_def)

lemma heap_wf_below: "heap_wf h \<Longrightarrow> objs h a = Some x \<Longrightarrow> a < lim h"
  by (auto simp: heap_wf_def)

lemma heap_wf_above: "heap_wf h \<Longrightarrow> lim h \<le> b \<Longrightarrow> objs h b = None"
  by (meson heap_wf_below not_Some_eq not_le)

lemma heap_wf_new_obj [intro]: "heap_wf h \<Longrightarrow> heap_wf (snd (new_obj x h))"
  by (fastforce simp: heap_wf_def new_obj_def less_SucI)

lemma store_Ptr_live [heap_simps]:
  "objs h a = Some y \<Longrightarrow> store (Ptr a) x h = Inr (h\<lparr>objs := (objs h)(a \<mapsto> x)\<rparr>)"
  by simp

lemma deref_Ptr_live [heap_simps]: "objs h a = Some y \<Longrightarrow> deref (Ptr a) h = Inr y"
  by simp

lemma heap_wf_store: "store q x h = Inr h' \<Longrightarrow> heap_wf h \<Longrightarrow> heap_wf h'"
  by (cases q) (fastforce simp: heap_wf_def split: option.splits if_splits)+

lemma store_lim: "store q x h = Inr h' \<Longrightarrow> lim h' = lim h"
  by (cases q) (auto split: option.splits)

lemma heap_wf_restrict: "heap_wf h \<Longrightarrow> heap_wf (h\<lparr>objs := objs h |` A\<rparr>)"
  by (auto simp: heap_wf_def restrict_map_def split: if_splits)

text \<open>
  The central fact on destruction: guarded deletes of pointers that name distinct live
  objects all succeed, and together they free exactly those objects.
\<close>

lemma delete_seq_ok:
  assumes "distinct (ptr_addrs qs)"
    and "\<forall>a \<in> set (ptr_addrs qs). objs h a \<noteq> None"
  shows "delete_seq qs h = Inr (h\<lparr>objs := objs h |` (- set (ptr_addrs qs))\<rparr>)"
  using assms
proof (induction qs arbitrary: h rule: ptr_addrs.induct)
  case 1
  then show ?case by simp
next
  case (2 qs)
  then show ?case by (simp add: delete_if_def)
next
  case (3 a qs)
  let ?h1 = "h\<lparr>objs := (objs h)(a := None)\<rparr>"
  from "3.prems" obtain y where y: "objs h a = Some y" by auto
  from "3.prems" have "delete_seq qs ?h1 = Inr (?h1\<lparr>objs := objs ?h1 |` (- set (ptr_addrs qs))\<rparr>)"
    by (intro "3.IH") auto
  moreover have "objs ?h1 |` (- set (ptr_addrs qs)) = objs h |` (- set (ptr_addrs (Ptr a # qs)))"
    by (auto simp: restrict_map_def fun_eq_iff)
  ultimately show ?case using y by (simp add: delete_if_def)
qed

text \<open>A pointer named twice is deleted twice: the second delete is an error.\<close>

lemma delete_seq_twice:
  assumes "objs h a \<noteq> None"
  shows "delete_seq [Ptr a, Ptr a] h = Inl (DoubleDelete a)"
  using assms by (auto simp: delete_if_def)


text \<open>Null pointers name no address.\<close>

lemma length_ptr_addrs: "length (ptr_addrs qs) \<le> length qs"
  by (induction qs rule: ptr_addrs.induct) auto

end
