(* ===== verification/QtModel.thy ===== *)
theory QtModel
  imports Prelude "HOL-Library.AList"
begin

text \<open>
  The parts of Qt and of the rest of QGroundControl that \<open>QGCCorePlugin.cc\<close> calls but
  that are not in this repository slice: URLs, variants, fact metadata, the QML
  application engine, QML type registration and object ownership, and the two signals
  the plugin emits. Each is modelled only as far as the plugin's calls observe it, from
  the documented behaviour of the library call; the plugin's own code is in the
  theories that import this one.
\<close>

subsection \<open>URLs\<close>

text \<open>
  \<open>QUrl\<close> is kept as the text of the URL. Every URL the plugin builds is an absolute
  \<open>qrc:\<close> URL, and for such input \<open>QUrl::fromUserInput\<close> returns the URL as written;
  its guessing of a scheme for scheme-less input is never reached and is not modelled.
  \<open>QUrl()\<close> is the empty URL.
\<close>

datatype QUrl = QUrl string

definition QUrl_empty :: QUrl where
  "QUrl_empty = QUrl []"

definition fromUserInput :: "string \<Rightarrow> QUrl" where
  "fromUserInput s = QUrl s"

subsection \<open>Variants and fact metadata\<close>

datatype QVariant = QVariantInvalid | QVariantInt int | QVariantBool bool

text \<open>
  The two metadata fields \<open>adjustSettingMetaData\<close> touches: the setting's name and its
  raw default value (with the flag that a default is present).
\<close>

record FactMetaData =
  fact_name :: string
  rawDefaultValue :: QVariant
  defaultValueAvailable :: bool

definition setRawDefaultValue :: "QVariant \<Rightarrow> FactMetaData \<Rightarrow> FactMetaData" where
  "setRawDefaultValue v md = md\<lparr>rawDefaultValue := v, defaultValueAvailable := True\<rparr>"

text \<open>The setting names \<open>AppSettings::indoorPaletteName\<close> and \<open>AppSettings::telemetrySaveName\<close>.\<close>

definition indoorPaletteName :: string where
  "indoorPaletteName = ''StyleIsDark''"

definition telemetrySaveName :: string where
  "telemetrySaveName = ''TelemetrySave''"

subsection \<open>The QML application engine\<close>

text \<open>
  An engine as the plugin's calls see it: its parent, its import path list, its root
  context's properties (a name-to-object table) and the URLs it was asked to load.
\<close>

record QQmlApplicationEngine =
  engine_parent :: ptr
  importPathList :: "string list"
  contextProperties :: "(string \<times> ptr) list"
  loadedUrls :: "QUrl list"

definition new_QQmlApplicationEngine :: "string list \<Rightarrow> ptr \<Rightarrow> QQmlApplicationEngine" where
  "new_QQmlApplicationEngine defaults parent =
     \<lparr>engine_parent = parent, importPathList = defaults, contextProperties = [], loadedUrls = []\<rparr>"

text \<open>\<open>addImportPath\<close> puts a path first in the list, unless it is already there.\<close>

definition addImportPath :: "string \<Rightarrow> QQmlApplicationEngine \<Rightarrow> QQmlApplicationEngine" where
  "addImportPath path e =
     (if path \<in> set (importPathList e) then e else e\<lparr>importPathList := path # importPathList e\<rparr>)"

text \<open>\<open>rootContext()->setContextProperty\<close> sets or overwrites one name.\<close>

definition setContextProperty :: "string \<Rightarrow> ptr \<Rightarrow> QQmlApplicationEngine \<Rightarrow> QQmlApplicationEngine" where
  "setContextProperty name obj e =
     e\<lparr>contextProperties := AList.update name obj (contextProperties e)\<rparr>"

definition load :: "QUrl \<Rightarrow> QQmlApplicationEngine \<Rightarrow> QQmlApplicationEngine" where
  "load url e = e\<lparr>loadedUrls := loadedUrls e @ [url]\<rparr>"

subsection \<open>QML type registration, ownership, signals\<close>

record qml_type_reg =
  reg_uri :: string
  reg_major :: nat
  reg_minor :: nat
  reg_qmlName :: string
  reg_reason :: string
  reg_cpp_type :: string

definition qmlRegisterUncreatableType ::
    "string \<Rightarrow> string \<Rightarrow> nat \<Rightarrow> nat \<Rightarrow> string \<Rightarrow> string \<Rightarrow> qml_type_reg list \<Rightarrow> qml_type_reg list" where
  "qmlRegisterUncreatableType cpp uri major minor name reason regs =
     regs @ [\<lparr>reg_uri = uri, reg_major = major, reg_minor = minor, reg_qmlName = name,
              reg_reason = reason, reg_cpp_type = cpp\<rparr>]"

datatype ObjectOwnership = CppOwnership | JavaScriptOwnership

datatype signal = showTouchAreasChanged bool | showAdvancedUIChanged bool

subsection \<open>Lemmas\<close>

lemma setting_names_differ: "indoorPaletteName \<noteq> telemetrySaveName"
  by (simp add: indoorPaletteName_def telemetrySaveName_def)

end
