(* ===== verification/CorePluginData.thy ===== *)
theory CorePluginData
  imports QtModel
begin

text \<open>
  The state of \<open>QGCCorePlugin\<close> (\<open>src/src/api/QGCCorePlugin.cc\<close>): the private
  object \<open>QGCCorePlugin_p\<close> behind the pointer \<open>_p\<close>, with its seven settings-page
  pointers, its \<open>settingsList\<close> and its \<open>defaultOptions\<close> pointer; the plugin's own
  fields; and the heap the objects live on. Here are the constructors and destructors
  of both classes, the build configuration, and the ownership invariant that every
  operation keeps: \<open>_p\<close> names a live private object, every non-null page pointer
  names a live settings object and is also an entry of \<open>settingsList\<close>, and the
  objects the destructor will delete are pairwise distinct. Its payoff is
  \<open>QGCCorePlugin_dtor_frees_owned\<close>: destruction never deletes twice and frees
  exactly the plugin's objects.
\<close>

subsection \<open>Build configuration and globals\<close>

text \<open>
  \<open>QT_DEBUG\<close> and \<open>__mobile__\<close> are preprocessor conditions, resolved at build time;
  \<open>translate\<close> is \<open>QObject::tr\<close> under the installed translator; the two pointers
  are the globals \<open>createRootWindow\<close> hands to QML.
\<close>

record env =
  qt_debug :: bool
  mobile :: bool
  translate :: "string \<Rightarrow> string"
  joystickManager :: ptr
  debugMessageModel :: ptr
  default_import_paths :: "string list"

subsection \<open>Objects on the heap\<close>

record QGCSettings =
  title :: string
  url :: QUrl
  icon :: QUrl

text \<open>\<open>QGCSettings(title, url, icon = QUrl())\<close>.\<close>

definition QGCSettings_ctor :: "string \<Rightarrow> QUrl \<Rightarrow> QUrl \<Rightarrow> QGCSettings" where
  "QGCSettings_ctor t u i = \<lparr>title = t, url = u, icon = i\<rparr>"

datatype QGCOptions = DefaultQGCOptions

text \<open>
  The private object. The fields \<open>pMockLink\<close> and \<open>pDebug\<close> exist only in debug
  builds; in a release build they are kept here but never written, so they stay null.
  \<open>settingsList\<close> is the \<open>QVariantList\<close> of \<open>QGCSettings*\<close>, one pointer per entry.
\<close>

record QGCCorePlugin_p =
  pGeneral :: ptr
  pCommLinks :: ptr
  pOfflineMaps :: ptr
  pMAVLink :: ptr
  pConsole :: ptr
  pMockLink :: ptr
  pDebug :: ptr
  settingsList :: "ptr list"
  defaultOptions :: ptr

datatype obj =
    SettingsObj QGCSettings
  | OptionsObj QGCOptions
  | PrivObj QGCCorePlugin_p
  | EngineObj QQmlApplicationEngine
  | ForeignObj nat

text \<open>
  Objects that belong to the rest of the application: foreign objects, and engines,
  which \<open>createRootWindow\<close> hands to their Qt parent.
\<close>

fun app_obj :: "obj \<Rightarrow> bool" where
  "app_obj (ForeignObj _) = True"
| "app_obj (EngineObj _) = True"
| "app_obj _ = False"

definition QGCCorePlugin_p_ctor :: QGCCorePlugin_p where
  "QGCCorePlugin_p_ctor =
     \<lparr>pGeneral = NULL, pCommLinks = NULL, pOfflineMaps = NULL, pMAVLink = NULL,
      pConsole = NULL, pMockLink = NULL, pDebug = NULL, settingsList = [],
      defaultOptions = NULL\<rparr>"

text \<open>The pointers in the order the destructor deletes them.\<close>

definition page_fields :: "QGCCorePlugin_p \<Rightarrow> ptr list" where
  "page_fields d = [pGeneral d, pCommLinks d, pOfflineMaps d, pMAVLink d, pConsole d]"

definition debug_fields :: "QGCCorePlugin_p \<Rightarrow> ptr list" where
  "debug_fields d = [pMockLink d, pDebug d]"

definition built_pages :: "env \<Rightarrow> QGCCorePlugin_p \<Rightarrow> ptr list" where
  "built_pages E d = page_fields d @ (if qt_debug E then debug_fields d else [])"

definition owned_ptrs :: "env \<Rightarrow> QGCCorePlugin_p \<Rightarrow> ptr list" where
  "owned_ptrs E d = built_pages E d @ [defaultOptions d]"

text \<open>\<open>~QGCCorePlugin_p\<close>: \<open>if(p) delete p;\<close> for each pointer, in the source's order.\<close>

definition QGCCorePlugin_p_dtor :: "env \<Rightarrow> QGCCorePlugin_p \<Rightarrow> obj heap \<Rightarrow> obj heap except" where
  "QGCCorePlugin_p_dtor E d = delete_seq (owned_ptrs E d)"

subsection \<open>The plugin and its world\<close>

text \<open>
  The plugin's fields (\<open>_p\<close>, \<open>_showTouchAreas\<close>, \<open>_showAdvancedUI\<close>, and
  \<open>_app\<close>, \<open>_toolbox\<close> of the base \<open>QGCTool\<close>) together with what its operations
  change outside it: the heap, the signals emitted, the QML types registered and the
  ownership declared for the plugin object.
\<close>

record plugin_state =
  heap :: "obj heap"
  p_ptr :: ptr
  showTouchAreas_v :: bool
  showAdvancedUI_v :: bool
  tool_app :: ptr
  tool_toolbox :: ptr
  emitted :: "signal list"
  qml_types :: "qml_type_reg list"
  js_ownership :: "ObjectOwnership option"

text \<open>
  \<open>QGCCorePlugin(app, toolbox)\<close>: the base \<open>QGCTool\<close> stores \<open>app\<close> and leaves
  \<open>_toolbox\<close> null until \<open>setToolbox\<close>; the plugin allocates its private object.
\<close>

definition QGCCorePlugin_ctor :: "ptr \<Rightarrow> ptr \<Rightarrow> obj heap \<Rightarrow> plugin_state" where
  "QGCCorePlugin_ctor app toolbox h =
     (let (q, h') = new_obj (PrivObj QGCCorePlugin_p_ctor) h in
      \<lparr>heap = h', p_ptr = q, showTouchAreas_v = False, showAdvancedUI_v = True,
       tool_app = app, tool_toolbox = NULL, emitted = [], qml_types = [], js_ownership = None\<rparr>)"

fun deref_priv :: "ptr \<Rightarrow> obj heap \<Rightarrow> QGCCorePlugin_p except" where
  "deref_priv NULL h = Inl NullDeref"
| "deref_priv (Ptr a) h =
     (case objs h a of
        None \<Rightarrow> Inl (UseAfterFree a)
      | Some (PrivObj d) \<Rightarrow> Inr d
      | Some _ \<Rightarrow> Inl (WrongType a))"

text \<open>
  \<open>~QGCCorePlugin\<close>: \<open>if(_p) delete _p;\<close>, which runs \<open>~QGCCorePlugin_p\<close> and
  then frees the private object. The result is the heap left behind.
\<close>

definition QGCCorePlugin_dtor :: "env \<Rightarrow> plugin_state \<Rightarrow> obj heap except" where
  "QGCCorePlugin_dtor E s =
     (if p_ptr s = NULL then Inr (heap s)
      else bindE (deref_priv (p_ptr s) (heap s)) (\<lambda>d.
             bindE (QGCCorePlugin_p_dtor E d (heap s)) (delete_obj (p_ptr s))))"

subsection \<open>The ownership invariant\<close>

fun is_settings :: "obj heap \<Rightarrow> ptr \<Rightarrow> bool" where
  "is_settings h NULL = False"
| "is_settings h (Ptr a) = (case objs h a of Some (SettingsObj _) \<Rightarrow> True | _ \<Rightarrow> False)"

fun is_options :: "obj heap \<Rightarrow> ptr \<Rightarrow> bool" where
  "is_options h NULL = False"
| "is_options h (Ptr a) = (case objs h a of Some (OptionsObj _) \<Rightarrow> True | _ \<Rightarrow> False)"

text \<open>
  Either the pages were never built (all page pointers null, list empty) or they were
  built once (list equal to the page pointers in order, all live settings objects);
  debug-only pointers are null in release builds; the options pointer is null or a live
  options object; the private object and everything it owns are distinct addresses.
\<close>

definition priv_inv :: "env \<Rightarrow> obj heap \<Rightarrow> nat \<Rightarrow> QGCCorePlugin_p \<Rightarrow> bool" where
  "priv_inv E h a d \<longleftrightarrow>
     (if pGeneral d = NULL
      then settingsList d = [] \<and> list_all (\<lambda>q. q = NULL) (page_fields d @ debug_fields d)
      else settingsList d = built_pages E d \<and> list_all (is_settings h) (built_pages E d))
     \<and> (qt_debug E \<or> debug_fields d = [NULL, NULL])
     \<and> (defaultOptions d = NULL \<or> is_options h (defaultOptions d))
     \<and> distinct (a # ptr_addrs (owned_ptrs E d))"

definition plugin_inv :: "env \<Rightarrow> plugin_state \<Rightarrow> bool" where
  "plugin_inv E s \<longleftrightarrow>
     heap_wf (heap s) \<and>
     (case p_ptr s of
        NULL \<Rightarrow> False
      | Ptr a \<Rightarrow> (case objs (heap s) a of Some (PrivObj d) \<Rightarrow> priv_inv E (heap s) a d | _ \<Rightarrow> False))"

text \<open>The addresses the plugin owns: its private object and what that object owns.\<close>

definition plugin_owned :: "env \<Rightarrow> plugin_state \<Rightarrow> nat set" where
  "plugin_owned E s =
     (case p_ptr s of
        NULL \<Rightarrow> {}
      | Ptr a \<Rightarrow> (case objs (heap s) a of
                   Some (PrivObj d) \<Rightarrow> set (a # ptr_addrs (owned_ptrs E d))
                 | _ \<Rightarrow> {}))"

subsection \<open>Sample configurations\<close>

text \<open>
  A concrete build (debug or release, desktop, no translator installed) and the plugin
  freshly constructed on a heap that holds one object of the rest of the application;
  the witnesses of the development evaluate the operations on them.
\<close>

definition sample_env :: "bool \<Rightarrow> env" where
  "sample_env dbg =
     \<lparr>qt_debug = dbg, mobile = False, translate = id, joystickManager = Ptr 100,
      debugMessageModel = Ptr 101, default_import_paths = []\<rparr>"

definition sample_plugin :: plugin_state where
  "sample_plugin = QGCCorePlugin_ctor NULL NULL \<lparr>objs = [0 \<mapsto> ForeignObj 7], lim = 1\<rparr>"

subsection \<open>Lemmas on the invariant\<close>

lemma plugin_invE:
  assumes "plugin_inv E s"
  obtains a d where "p_ptr s = Ptr a" "objs (heap s) a = Some (PrivObj d)"
    "priv_inv E (heap s) a d" "heap_wf (heap s)"
  using assms by (auto simp: plugin_inv_def split: ptr.splits option.splits obj.splits)

lemma is_settings_live: "is_settings h q \<Longrightarrow> \<exists>a s. q = Ptr a \<and> objs h a = Some (SettingsObj s)"
  by (cases q) (auto split: option.splits obj.splits)

lemma is_options_live: "is_options h q \<Longrightarrow> \<exists>a x. q = Ptr a \<and> objs h a = Some (OptionsObj x)"
  by (cases q) (auto split: option.splits obj.splits)

lemma ptr_addrs_append [simp]: "ptr_addrs (xs @ ys) = ptr_addrs xs @ ptr_addrs ys"
  by (induction xs rule: ptr_addrs.induct) auto

lemma set_ptr_addrs: "a \<in> set (ptr_addrs qs) \<longleftrightarrow> Ptr a \<in> set qs"
  by (induction qs rule: ptr_addrs.induct) auto

lemma ptr_addrs_all_null: "list_all (\<lambda>q. q = NULL) qs \<Longrightarrow> ptr_addrs qs = []"
  by (induction qs rule: ptr_addrs.induct) auto

text \<open>Every address the private object owns is a live object.\<close>

lemma priv_inv_owned_live:
  assumes "priv_inv E h a d" and "b \<in> set (ptr_addrs (owned_ptrs E d))"
  shows "objs h b \<noteq> None"
proof -
  from assms(2) have b: "Ptr b \<in> set (owned_ptrs E d)" by (simp add: set_ptr_addrs)
  show ?thesis
  proof (cases "Ptr b = defaultOptions d")
    case True
    with assms(1) show ?thesis
      by (auto simp: priv_inv_def dest!: is_options_live)
  next
    case False
    with b have "Ptr b \<in> set (built_pages E d)" by (simp add: owned_ptrs_def)
    with assms(1) show ?thesis
      by (auto simp: priv_inv_def list_all_iff built_pages_def page_fields_def debug_fields_def
               split: if_splits dest!: is_settings_live)
  qed
qed

lemma sample_plugin_inv: "plugin_inv (sample_env dbg) sample_plugin"
  by (simp add: sample_plugin_def sample_env_def QGCCorePlugin_ctor_def new_obj_def plugin_inv_def
      priv_inv_def heap_wf_def QGCCorePlugin_p_ctor_def page_fields_def debug_fields_def
      owned_ptrs_def built_pages_def)

text \<open>
  Frame rule of the invariant: it reads the heap only at the addresses the private
  object owns, so any change elsewhere keeps it.
\<close>

lemma priv_inv_frame:
  assumes "\<forall>b \<in> set (ptr_addrs (owned_ptrs E d)). objs h' b = objs h b"
  shows "priv_inv E h' a d = priv_inv E h a d"
proof -
  have s: "is_settings h' q = is_settings h q" if q: "q \<in> set (built_pages E d)" for q
  proof (cases q)
    case (Ptr b)
    with q have "b \<in> set (ptr_addrs (owned_ptrs E d))" by (simp add: set_ptr_addrs owned_ptrs_def)
    with assms Ptr show ?thesis by simp
  qed simp
  have o: "is_options h' (defaultOptions d) = is_options h (defaultOptions d)"
    using assms by (cases "defaultOptions d") (auto simp: set_ptr_addrs owned_ptrs_def)
  show ?thesis
    unfolding priv_inv_def using s o by (simp add: list_all_iff)
qed

lemma plugin_inv_frame:
  assumes "plugin_inv E s" and "p_ptr s' = p_ptr s" and "heap_wf (heap s')"
    and "\<forall>b \<in> plugin_owned E s. objs (heap s') b = objs (heap s) b"
  shows "plugin_inv E s'"
proof -
  from assms(1) obtain a d where p: "p_ptr s = Ptr a" and pa: "objs (heap s) a = Some (PrivObj d)"
    and pinv: "priv_inv E (heap s) a d"
    by (rule plugin_invE)
  have own: "plugin_owned E s = set (a # ptr_addrs (owned_ptrs E d))"
    using p pa by (simp add: plugin_owned_def)
  with assms(4) pa have pa': "objs (heap s') a = Some (PrivObj d)" by simp
  from own assms(4) have "priv_inv E (heap s') a d"
    using priv_inv_frame [of E d "heap s'" "heap s" a] pinv by simp
  with pa' p assms(2,3) show ?thesis by (simp add: plugin_inv_def)
qed

lemma plugin_owned_live:
  assumes "plugin_inv E s" and "b \<in> plugin_owned E s"
  shows "objs (heap s) b \<noteq> None"
proof -
  from assms(1) obtain a d where p: "p_ptr s = Ptr a" and pa: "objs (heap s) a = Some (PrivObj d)"
    and pinv: "priv_inv E (heap s) a d"
    by (rule plugin_invE)
  with assms(2) priv_inv_owned_live [OF pinv] show ?thesis
    by (auto simp: plugin_owned_def)
qed

lemma plugin_owned_frame:
  assumes "p_ptr s' = p_ptr s" and "\<forall>b \<in> plugin_owned E s. objs (heap s') b = objs (heap s) b"
    and "plugin_inv E s"
  shows "plugin_owned E s' = plugin_owned E s"
proof -
  from assms(3) obtain a d where p: "p_ptr s = Ptr a" and pa: "objs (heap s) a = Some (PrivObj d)"
    by (rule plugin_invE)
  with assms(1,2) show ?thesis by (simp add: plugin_owned_def)
qed

text \<open>
  The destructor's effect as an equation: under the invariant, the guarded deletes of
  \<open>~QGCCorePlugin_p\<close> and the final delete of \<open>_p\<close> all succeed, and the heap
  left behind is the old one with the plugin's addresses freed.
\<close>

text \<open>
  The destructor reads only \<open>_p\<close> and the pointers \<open>~QGCCorePlugin_p\<close> deletes: when they
  name distinct live objects, it frees exactly those and the private object.
\<close>

lemma QGCCorePlugin_dtor_eq_priv:
  assumes p: "p_ptr s = Ptr a" and a: "objs (heap s) a = Some (PrivObj d)"
    and dist: "distinct (a # ptr_addrs (owned_ptrs E d))"
    and live: "\<forall>b \<in> set (ptr_addrs (owned_ptrs E d)). objs (heap s) b \<noteq> None"
  shows "QGCCorePlugin_dtor E s =
           Inr ((heap s)\<lparr>objs := objs (heap s) |` (- set (a # ptr_addrs (owned_ptrs E d)))\<rparr>)"
proof -
  let ?A = "set (ptr_addrs (owned_ptrs E d))"
  let ?h1 = "(heap s)\<lparr>objs := objs (heap s) |` (- ?A)\<rparr>"
  have "QGCCorePlugin_p_dtor E d (heap s) = Inr ?h1"
    unfolding QGCCorePlugin_p_dtor_def using dist live by (intro delete_seq_ok) auto
  moreover from dist a have "objs ?h1 a = Some (PrivObj d)" by simp
  moreover have "(objs (heap s) |` (- ?A))(a := None) = objs (heap s) |` (- insert a ?A)"
    by (auto simp: restrict_map_def fun_eq_iff)
  ultimately show ?thesis
    using p a by (simp add: QGCCorePlugin_dtor_def)
qed

lemma QGCCorePlugin_dtor_eq:
  assumes "plugin_inv E s"
  shows "QGCCorePlugin_dtor E s = Inr ((heap s)\<lparr>objs := objs (heap s) |` (- plugin_owned E s)\<rparr>)"
proof -
  from assms obtain a d where p: "p_ptr s = Ptr a" and a: "objs (heap s) a = Some (PrivObj d)"
    and inv: "priv_inv E (heap s) a d"
    by (rule plugin_invE)
  from inv have dist: "distinct (a # ptr_addrs (owned_ptrs E d))"
    by (simp add: priv_inv_def)
  have "plugin_owned E s = set (a # ptr_addrs (owned_ptrs E d))"
    using p a by (simp add: plugin_owned_def)
  with QGCCorePlugin_dtor_eq_priv [OF p a dist] priv_inv_owned_live [OF inv] show ?thesis
    by simp
qed

text \<open>
  Under the invariant, what \<open>~QGCCorePlugin_p\<close> deletes is what the private object
  holds: the pages listed in \<open>settingsList\<close> and the options object.
\<close>

lemma priv_inv_owned_addrs:
  assumes "priv_inv E h a d"
  shows "set (ptr_addrs (owned_ptrs E d)) =
           {b. Ptr b \<in> set (settingsList d) \<or> defaultOptions d = Ptr b}"
proof -
  have "Ptr b \<in> set (built_pages E d) \<longleftrightarrow> Ptr b \<in> set (settingsList d)" for b
    using assms by (auto simp: priv_inv_def list_all_iff built_pages_def page_fields_def
        debug_fields_def split: if_splits)
  then show ?thesis by (auto simp: owned_ptrs_def set_ptr_addrs)
qed


text \<open>
  The constructor establishes the invariant: on any well-formed heap, the freshly
  constructed plugin owns a live private object with no pages and no options yet.
\<close>

lemma QGCCorePlugin_ctor_inv:
  assumes "heap_wf h"
  shows "plugin_inv E (QGCCorePlugin_ctor app toolbox h)"
  using assms
  by (simp add: QGCCorePlugin_ctor_def new_obj_def plugin_inv_def priv_inv_def
      QGCCorePlugin_p_ctor_def page_fields_def debug_fields_def owned_ptrs_def built_pages_def
      heap_wf_new_obj [unfolded new_obj_def, simplified])



text \<open>The plugin owns at most its private object, seven pages and the options object.\<close>

lemma card_plugin_owned:
  assumes "plugin_inv E s"
  shows "card (plugin_owned E s) \<le> (if qt_debug E then 9 else 7)"
proof -
  from assms obtain a d where p: "p_ptr s = Ptr a" and pa: "objs (heap s) a = Some (PrivObj d)"
    by (rule plugin_invE)
  have own: "plugin_owned E s = set (a # ptr_addrs (owned_ptrs E d))"
    using p pa by (simp add: plugin_owned_def)
  have "card (plugin_owned E s) \<le> length (a # ptr_addrs (owned_ptrs E d))"
    by (simp only: own card_length)
  also have "\<dots> \<le> Suc (length (owned_ptrs E d))" using length_ptr_addrs by simp
  also have "\<dots> = (if qt_debug E then 9 else 7)"
    by (simp add: owned_ptrs_def built_pages_def page_fields_def debug_fields_def)
  finally show ?thesis .
qed

end
