(* ===== verification/SettingsPages.thy ===== *)
theory SettingsPages
  imports CorePluginData
begin

text \<open>
  \<open>QGCCorePlugin::settingsPages\<close> (\<open>QGCCorePlugin.cc\<close>, lines 100--135): on the first
  call, when \<open>_p->pGeneral\<close> is null, it allocates the default settings pages one by
  one, storing each pointer in its field and appending it to \<open>settingsList\<close>; every
  call returns \<open>settingsList\<close>. The unrolled allocation sequence of the source is
  \<open>populate_pages\<close>; it is shown equal to a loop, \<open>alloc_pages\<close> over the list of page
  descriptors \<open>default_settings\<close>, followed by the field assignment
  \<open>assign_pages\<close>, and the loop's lemmas give the result. The abstract contract
  of the spec, a registry that is filled once and then returned unchanged
  (\<open>registry_pages\<close>), is refined by \<open>settingsPages\<close> through the abstraction
  \<open>abs_registry\<close>.
\<close>

subsection \<open>The operation\<close>

text \<open>
  One step of the source: \<open>_p->pX = new QGCSettings(...)\<close> followed by
  \<open>_p->settingsList.append(QVariant::fromValue(_p->pX))\<close>.
\<close>

definition add_page ::
    "(ptr \<Rightarrow> QGCCorePlugin_p \<Rightarrow> QGCCorePlugin_p) \<Rightarrow> QGCSettings \<Rightarrow>
     QGCCorePlugin_p \<times> obj heap \<Rightarrow> QGCCorePlugin_p \<times> obj heap" where
  "add_page set_field page dh =
     (let (d, h) = dh;
          (q, h') = new_obj (SettingsObj page) h;
          d' = set_field q d
      in (d'\<lparr>settingsList := settingsList d' @ [q]\<rparr>, h'))"

definition populate_pages :: "env \<Rightarrow> QGCCorePlugin_p \<times> obj heap \<Rightarrow> QGCCorePlugin_p \<times> obj heap" where
  "populate_pages E dh0 =
     (let tr = translate E;
          dh1 = add_page (\<lambda>q d. d\<lparr>pGeneral := q\<rparr>)
                  (QGCSettings_ctor (tr ''General'')
                     (fromUserInput ''qrc:/qml/GeneralSettings.qml'')
                     (fromUserInput ''qrc:/res/gear-white.svg'')) dh0;
          dh2 = add_page (\<lambda>q d. d\<lparr>pCommLinks := q\<rparr>)
                  (QGCSettings_ctor (tr ''Comm Links'')
                     (fromUserInput ''qrc:/qml/LinkSettings.qml'')
                     (fromUserInput ''qrc:/res/waves.svg'')) dh1;
          dh3 = add_page (\<lambda>q d. d\<lparr>pOfflineMaps := q\<rparr>)
                  (QGCSettings_ctor (tr ''Offline Maps'')
                     (fromUserInput ''qrc:/qml/OfflineMap.qml'')
                     (fromUserInput ''qrc:/res/waves.svg'')) dh2;
          dh4 = add_page (\<lambda>q d. d\<lparr>pMAVLink := q\<rparr>)
                  (QGCSettings_ctor (tr ''MAVLink'')
                     (fromUserInput ''qrc:/qml/MavlinkSettings.qml'')
                     (fromUserInput ''qrc:/res/waves.svg'')) dh3;
          dh5 = add_page (\<lambda>q d. d\<lparr>pConsole := q\<rparr>)
                  (QGCSettings_ctor (tr ''Console'')
                     (fromUserInput ''qrc:/qml/QGroundControl/Controls/AppMessages.qml'')
                     QUrl_empty) dh4
      in if qt_debug E
         then add_page (\<lambda>q d. d\<lparr>pDebug := q\<rparr>)
                (QGCSettings_ctor (tr ''Debug'') (fromUserInput ''qrc:/qml/DebugWindow.qml'') QUrl_empty)
                (add_page (\<lambda>q d. d\<lparr>pMockLink := q\<rparr>)
                   (QGCSettings_ctor (tr ''Mock Link'') (fromUserInput ''qrc:/qml/MockLink.qml'') QUrl_empty)
                   dh5)
         else dh5)"

text \<open>
  The whole accessor. The private object is read through \<open>_p\<close>; the updated private
  object is written back through \<open>_p\<close>; the result is the list.
\<close>

definition settingsPages :: "env \<Rightarrow> plugin_state \<Rightarrow> (ptr list \<times> plugin_state) except" where
  "settingsPages E s =
     bindE (deref_priv (p_ptr s) (heap s)) (\<lambda>d.
       if pGeneral d = NULL then
         (let (d', h') = populate_pages E (d, heap s) in
          bindE (store (p_ptr s) (PrivObj d') h') (\<lambda>h''. Inr (settingsList d', s\<lparr>heap := h''\<rparr>)))
       else Inr (settingsList d, s))"

subsection \<open>The default pages as a list, allocated by a loop\<close>

text \<open>
  The page descriptors the source constructs (lines 105--131), in the order written;
  they are the default set of the spec (section 4.1).
\<close>

definition default_settings :: "env \<Rightarrow> QGCSettings list" where
  "default_settings E =
     [QGCSettings_ctor (translate E ''General'') (fromUserInput ''qrc:/qml/GeneralSettings.qml'') (fromUserInput ''qrc:/res/gear-white.svg''),
      QGCSettings_ctor (translate E ''Comm Links'') (fromUserInput ''qrc:/qml/LinkSettings.qml'') (fromUserInput ''qrc:/res/waves.svg''),
      QGCSettings_ctor (translate E ''Offline Maps'') (fromUserInput ''qrc:/qml/OfflineMap.qml'') (fromUserInput ''qrc:/res/waves.svg''),
      QGCSettings_ctor (translate E ''MAVLink'') (fromUserInput ''qrc:/qml/MavlinkSettings.qml'') (fromUserInput ''qrc:/res/waves.svg''),
      QGCSettings_ctor (translate E ''Console'') (fromUserInput ''qrc:/qml/QGroundControl/Controls/AppMessages.qml'') QUrl_empty]
     @ (if qt_debug E then
          [QGCSettings_ctor (translate E ''Mock Link'') (fromUserInput ''qrc:/qml/MockLink.qml'') QUrl_empty,
           QGCSettings_ctor (translate E ''Debug'') (fromUserInput ''qrc:/qml/DebugWindow.qml'') QUrl_empty]
        else [])"

fun alloc_pages :: "QGCSettings list \<Rightarrow> obj heap \<Rightarrow> ptr list \<times> obj heap" where
  "alloc_pages [] h = ([], h)"
| "alloc_pages (x # xs) h =
     (let (q, h1) = new_obj (SettingsObj x) h;
          (qs, h2) = alloc_pages xs h1
      in (q # qs, h2))"

fun assign_pages :: "ptr list \<Rightarrow> QGCCorePlugin_p \<Rightarrow> QGCCorePlugin_p" where
  "assign_pages [g, c, om, m, k] d =
     d\<lparr>pGeneral := g, pCommLinks := c, pOfflineMaps := om, pMAVLink := m, pConsole := k,
       settingsList := settingsList d @ [g, c, om, m, k]\<rparr>"
| "assign_pages [g, c, om, m, k, ml, db] d =
     d\<lparr>pGeneral := g, pCommLinks := c, pOfflineMaps := om, pMAVLink := m, pConsole := k,
       pMockLink := ml, pDebug := db, settingsList := settingsList d @ [g, c, om, m, k, ml, db]\<rparr>"
| "assign_pages qs d = d"

text \<open>Reading a list of pointers back as settings pages; \<open>None\<close> if one is not a live page.\<close>

fun settings_at :: "obj heap \<Rightarrow> ptr \<Rightarrow> QGCSettings option" where
  "settings_at h NULL = None"
| "settings_at h (Ptr a) = (case objs h a of Some (SettingsObj x) \<Rightarrow> Some x | _ \<Rightarrow> None)"

definition pages_of :: "obj heap \<Rightarrow> ptr list \<Rightarrow> QGCSettings list option" where
  "pages_of h qs = those (map (settings_at h) qs)"

subsection \<open>The contract: a registry filled once\<close>

text \<open>
  The spec's \<open>SettingsPageRegistry\<close> (section 4.1): an optional list of descriptors,
  absent until the first access, which fills it with the default set; every access
  returns the list held.
\<close>

definition registry_pages :: "env \<Rightarrow> QGCSettings list option \<Rightarrow> QGCSettings list \<times> QGCSettings list option" where
  "registry_pages E r =
     (case r of None \<Rightarrow> (default_settings E, Some (default_settings E)) | Some ps \<Rightarrow> (ps, Some ps))"

definition abs_registry :: "plugin_state \<Rightarrow> QGCSettings list option" where
  "abs_registry s =
     (case deref_priv (p_ptr s) (heap s) of
        Inl _ \<Rightarrow> None
      | Inr d \<Rightarrow> if pGeneral d = NULL then None else pages_of (heap s) (settingsList d))"

definition pages_built :: "plugin_state \<Rightarrow> bool" where
  "pages_built s =
     (case deref_priv (p_ptr s) (heap s) of Inl _ \<Rightarrow> False | Inr d \<Rightarrow> pGeneral d \<noteq> NULL)"

subsection \<open>Lemmas on the allocation loop\<close>

lemma alloc_pages_ptrs: "fst (alloc_pages xs h) = map Ptr [lim h..<lim h + length xs]"
proof (induction xs arbitrary: h)
  case Nil
  then show ?case by simp
next
  case (Cons x xs)
  have "fst (alloc_pages xs (snd (new_obj (SettingsObj x) h))) = map Ptr [Suc (lim h)..<lim h + length (x # xs)]"
    using Cons.IH by (simp add: heap_simps)
  then show ?case by (simp add: new_obj_def split_def upt_rec)
qed

lemma alloc_pages_lim: "lim (snd (alloc_pages xs h)) = lim h + length xs"
  by (induction xs arbitrary: h) (simp_all add: split_def Let_def heap_simps)

lemma alloc_pages_objs:
  "objs (snd (alloc_pages xs h)) b =
     (if lim h \<le> b \<and> b < lim h + length xs then Some (SettingsObj (xs ! (b - lim h))) else objs h b)"
proof (induction xs arbitrary: h)
  case Nil
  then show ?case by auto
next
  case (Cons x xs)
  let ?n = "lim h"
  have "objs (snd (alloc_pages (x # xs) h)) b = objs (snd (alloc_pages xs (snd (new_obj (SettingsObj x) h)))) b"
    by (simp add: split_def Let_def)
  also have "\<dots> = (if Suc ?n \<le> b \<and> b < Suc ?n + length xs then Some (SettingsObj (xs ! (b - Suc ?n)))
                    else ((objs h)(?n \<mapsto> SettingsObj x)) b)"
    using Cons.IH by (simp add: heap_simps)
  also have "\<dots> = (if ?n \<le> b \<and> b < ?n + length (x # xs) then Some (SettingsObj ((x # xs) ! (b - ?n)))
                    else objs h b)"
  proof (cases "b = ?n")
    case False
    then show ?thesis by (auto simp: nth_Cons' Suc_le_eq)
  qed simp
  finally show ?case .
qed

lemma alloc_pages_wf: "heap_wf h \<Longrightarrow> heap_wf (snd (alloc_pages xs h))"
  by (induction xs arbitrary: h) (auto simp: split_def Let_def)

lemma those_map_Some [simp]: "those (map Some xs) = Some xs"
  by (induction xs) auto

lemma length_default_settings:
  "length (default_settings E) = (if qt_debug E then 7 else 5)"
  by (simp add: default_settings_def)

text \<open>Reading back freshly allocated pages gives exactly the descriptors allocated.\<close>

lemma pages_of_alloc_pages:
  "pages_of (snd (alloc_pages xs h)) (fst (alloc_pages xs h)) = Some xs"
proof -
  have "map (settings_at (snd (alloc_pages xs h))) (fst (alloc_pages xs h)) = map Some xs"
    by (rule nth_equalityI) (simp_all add: alloc_pages_ptrs alloc_pages_objs)
  then show ?thesis by (simp add: pages_of_def)
qed

lemma alloc_pages_old:
  "heap_wf h \<Longrightarrow> objs h b = Some y \<Longrightarrow> objs (snd (alloc_pages xs h)) b = Some y"
  by (auto simp: alloc_pages_objs dest: heap_wf_below)

subsection \<open>The source's sequence is the loop\<close>

lemma populate_pages_eq_alloc:
  "populate_pages E (d, h) =
     (let (qs, h') = alloc_pages (default_settings E) h in (assign_pages qs d, h'))"
  by (cases "qt_debug E")
     (simp_all add: populate_pages_def add_page_def default_settings_def new_obj_def
        fromUserInput_def Let_def split_def)

text \<open>The field assignment, for a list of the length the build produces.\<close>

lemma assign_pages_fields:
  assumes "length qs = length (default_settings E)"
  shows "built_pages E (assign_pages qs d) = qs"
    and "settingsList (assign_pages qs d) = settingsList d @ qs"
    and "pGeneral (assign_pages qs d) = hd qs"
    and "defaultOptions (assign_pages qs d) = defaultOptions d"
    and "\<not> qt_debug E \<Longrightarrow> debug_fields (assign_pages qs d) = debug_fields d"
  using assms
  by (cases "qt_debug E";
      auto simp: length_default_settings length_Suc_conv numeral_eq_Suc built_pages_def
        page_fields_def debug_fields_def)+

subsection \<open>The accessor\<close>

lemma ptr_addrs_map_Ptr [simp]: "ptr_addrs (map Ptr xs) = xs"
  by (induction xs) auto

lemma settingsPages_built:
  assumes "deref_priv (p_ptr s) (heap s) = Inr d" and "pGeneral d \<noteq> NULL"
  shows "settingsPages E s = Inr (settingsList d, s)"
  using assms by (simp add: settingsPages_def)

lemma settingsPages_fresh:
  assumes "heap_wf (heap s)" and "p_ptr s = Ptr a" and "objs (heap s) a = Some (PrivObj d)"
    and "pGeneral d = NULL" and qh: "alloc_pages (default_settings E) (heap s) = (qs, h1)"
  shows "settingsPages E s =
           Inr (settingsList d @ qs, s\<lparr>heap := h1\<lparr>objs := (objs h1)(a \<mapsto> PrivObj (assign_pages qs d))\<rparr>\<rparr>)"
proof -
  have len: "length qs = length (default_settings E)"
    using alloc_pages_ptrs [of "default_settings E" "heap s"] qh by simp
  have "objs h1 a = Some (PrivObj d)"
    using alloc_pages_old [OF assms(1) assms(3), of "default_settings E"] qh by simp
  then show ?thesis
    using assms qh len by (simp add: settingsPages_def populate_pages_eq_alloc assign_pages_fields)
qed

lemma settingsPages_fresh_inv:
  assumes inv: "plugin_inv E s" and p: "p_ptr s = Ptr a" and pa: "objs (heap s) a = Some (PrivObj d)"
    and null: "pGeneral d = NULL" and qh: "alloc_pages (default_settings E) (heap s) = (qs, h1)"
  shows "plugin_inv E (s\<lparr>heap := h1\<lparr>objs := (objs h1)(a \<mapsto> PrivObj (assign_pages qs d))\<rparr>\<rparr>)"
proof -
  let ?n = "lim (heap s)" and ?k = "length (default_settings E)" and ?d' = "assign_pages qs d"
  let ?h' = "h1\<lparr>objs := (objs h1)(a \<mapsto> PrivObj ?d')\<rparr>"
  from inv p pa have wf: "heap_wf (heap s)" and pinv: "priv_inv E (heap s) a d"
    by (auto elim: plugin_invE)
  have qs: "qs = map Ptr [?n..<?n + ?k]"
    using alloc_pages_ptrs [of "default_settings E" "heap s"] qh by simp
  then have len: "length qs = ?k" by simp
  have a_lt: "a < ?n" using heap_wf_below [OF wf pa] .
  have h1: "objs h1 b = (if ?n \<le> b \<and> b < ?n + ?k then Some (SettingsObj (default_settings E ! (b - ?n)))
                         else objs (heap s) b)" for b
    using alloc_pages_objs [of "default_settings E" "heap s" b] qh by simp
  have wf1: "heap_wf h1" using alloc_pages_wf [OF wf, of "default_settings E"] qh by simp
  have wf': "heap_wf ?h'"
    using heap_wf_store [OF store_Ptr_live wf1, of a "PrivObj d" "PrivObj ?d'"] h1 pa a_lt by simp
  from pinv null have list0: "settingsList d = []" and dbg: "qt_debug E \<or> debug_fields d = [NULL, NULL]"
    by (simp_all add: priv_inv_def)
  have gen: "pGeneral ?d' \<noteq> NULL"
    using assign_pages_fields(3) [OF len] qs by (cases "qt_debug E") (simp_all add: length_default_settings upt_rec)
  have opts: "defaultOptions d = NULL \<or> (\<exists>b x. defaultOptions d = Ptr b \<and> b < ?n \<and> b \<noteq> a \<and> objs (heap s) b = Some (OptionsObj x))"
    using pinv wf by (auto simp: priv_inv_def owned_ptrs_def dest!: is_options_live dest: heap_wf_below)
  have "list_all (is_settings ?h') qs"
    using qs a_lt by (auto simp: list_all_iff h1)
  moreover have "defaultOptions d = NULL \<or> is_options ?h' (defaultOptions d)"
    using opts h1 by auto
  moreover have "distinct (a # ptr_addrs (owned_ptrs E ?d'))"
    unfolding owned_ptrs_def assign_pages_fields(1,4) [OF len] using opts qs a_lt by auto
  moreover have "qt_debug E \<or> debug_fields ?d' = [NULL, NULL]"
    using dbg assign_pages_fields(5) [OF len, of d] by (cases "qt_debug E") auto
  ultimately have "priv_inv E ?h' a ?d'"
    using gen list0 by (simp add: priv_inv_def assign_pages_fields [OF len])
  with wf' p show ?thesis by (simp add: plugin_inv_def)
qed

lemma settings_at_upd_other:
  "q \<noteq> Ptr a \<Longrightarrow> settings_at (h\<lparr>objs := (objs h)(a \<mapsto> x)\<rparr>) q = settings_at h q"
  by (cases q) auto

lemma pages_of_upd_other:
  "Ptr a \<notin> set qs \<Longrightarrow> pages_of (h\<lparr>objs := (objs h)(a \<mapsto> x)\<rparr>) qs = pages_of h qs"
  unfolding pages_of_def by (metis (mono_tags, lifting) map_eq_conv settings_at_upd_other)

lemma pages_of_settings:
  "list_all (is_settings h) qs \<Longrightarrow> \<exists>l. pages_of h qs = Some l"
proof (induction qs)
  case (Cons q qs)
  then show ?case
    by (cases q) (auto simp: pages_of_def split: option.splits obj.splits)
qed (simp add: pages_of_def)

lemma deref_priv_store:
  "store q (PrivObj d) h = Inr h' \<Longrightarrow> deref_priv q h' = Inr d"
  by (cases q) (auto split: option.splits)

lemma populate_pages_general: "pGeneral (fst (populate_pages E (d, h))) \<noteq> NULL"
proof -
  obtain qs h1 where qh: "alloc_pages (default_settings E) h = (qs, h1)" by fastforce
  then have qs: "qs = map Ptr [lim h..<lim h + length (default_settings E)]"
    using alloc_pages_ptrs [of "default_settings E" h] by simp
  then have "length qs = length (default_settings E)" by simp
  then show ?thesis
    using qh qs assign_pages_fields(3)
    by (cases "qt_debug E") (simp_all add: populate_pages_eq_alloc length_default_settings upt_rec)
qed

text \<open>After the first call, the list returned reads back as the default pages.\<close>

lemma settingsPages_fresh_pages:
  assumes "heap_wf (heap s)" and "objs (heap s) a = Some (PrivObj d)"
    and qh: "alloc_pages (default_settings E) (heap s) = (qs, h1)"
  shows "pages_of (h1\<lparr>objs := (objs h1)(a \<mapsto> x)\<rparr>) qs = Some (default_settings E)"
proof -
  have "a < lim (heap s)" using heap_wf_below assms(1,2) .
  moreover have "qs = map Ptr [lim (heap s)..<lim (heap s) + length (default_settings E)]"
    using alloc_pages_ptrs [of "default_settings E" "heap s"] qh by simp
  ultimately have "Ptr a \<notin> set qs" by auto
  then show ?thesis
    using pages_of_alloc_pages [of "default_settings E" "heap s"] qh by (simp add: pages_of_upd_other)
qed

text \<open>Under the invariant the accessor always returns: no dereference fails.\<close>

lemma settingsPages_returns:
  assumes inv: "plugin_inv E s"
  shows "\<exists>r. settingsPages E s = Inr r"
proof -
  from inv obtain a d where p: "p_ptr s = Ptr a" and pa: "objs (heap s) a = Some (PrivObj d)"
    and wf: "heap_wf (heap s)"
    by (rule plugin_invE)
  obtain qs h1 where qh: "alloc_pages (default_settings E) (heap s) = (qs, h1)" by fastforce
  show ?thesis
    using settingsPages_fresh [OF wf p pa _ qh] settingsPages_built [of s d E] p pa
    by (cases "pGeneral d = NULL") auto
qed

lemma sample_not_built: "\<not> pages_built sample_plugin"
  by (simp add: pages_built_def sample_plugin_def QGCCorePlugin_ctor_def new_obj_def QGCCorePlugin_p_ctor_def)

text \<open>
  C17. The first call to \<open>settingsPages\<close> on a plugin whose pages were never built
  allocates fresh objects, returns pointers that read back as exactly the default pages
  in display order (General, Comm Links, Offline Maps, MAVLink, Console, then Mock Link
  and Debug in debug builds), marks the pages built, and leaves every other object of
  the heap, apart from the private object, unchanged.
\<close>

theorem settingsPages_first_call:
  assumes inv: "plugin_inv E s" and nb: "\<not> pages_built s"
  shows "\<exists>ps s'. settingsPages E s = Inr (ps, s') \<and>
           pages_of (heap s') ps = Some (default_settings E) \<and> pages_built s' \<and>
           (\<forall>b \<in> set (ptr_addrs ps). objs (heap s) b = None) \<and>
           (\<forall>b. b \<notin> set (ptr_addrs ps) \<and> p_ptr s \<noteq> Ptr b \<longrightarrow> objs (heap s') b = objs (heap s) b)"
proof -
  from inv obtain a d where p: "p_ptr s = Ptr a" and pa: "objs (heap s) a = Some (PrivObj d)"
    and pinv: "priv_inv E (heap s) a d" and wf: "heap_wf (heap s)"
    by (rule plugin_invE)
  from nb p pa have null: "pGeneral d = NULL" by (simp add: pages_built_def)
  with pinv have list0: "settingsList d = []" by (simp add: priv_inv_def)
  obtain qs h1 where qh: "alloc_pages (default_settings E) (heap s) = (qs, h1)" by fastforce
  let ?h' = "h1\<lparr>objs := (objs h1)(a \<mapsto> PrivObj (assign_pages qs d))\<rparr>"
  have qs: "qs = map Ptr [lim (heap s)..<lim (heap s) + length (default_settings E)]"
    using alloc_pages_ptrs [of "default_settings E" "heap s"] qh by simp
  have h1: "objs h1 b = (if lim (heap s) \<le> b \<and> b < lim (heap s) + length (default_settings E)
                         then Some (SettingsObj (default_settings E ! (b - lim (heap s)))) else objs (heap s) b)" for b
    using alloc_pages_objs [of "default_settings E" "heap s" b] qh by simp
  have run: "settingsPages E s = Inr (qs, s\<lparr>heap := ?h'\<rparr>)"
    using settingsPages_fresh [OF wf p pa null qh] list0 by simp
  have "pGeneral (assign_pages qs d) \<noteq> NULL"
    using populate_pages_general [of E d "heap s"] qh by (simp add: populate_pages_eq_alloc)
  then have built: "pages_built (s\<lparr>heap := ?h'\<rparr>)"
    using p by (simp add: pages_built_def)
  have fresh: "\<forall>b \<in> set (ptr_addrs qs). objs (heap s) b = None"
    using qs by (auto intro: heap_wf_above [OF wf])
  have frame: "\<forall>b. b \<notin> set (ptr_addrs qs) \<and> p_ptr s \<noteq> Ptr b \<longrightarrow> objs ?h' b = objs (heap s) b"
    using qs p h1 by auto
  show ?thesis
    using run settingsPages_fresh_pages [OF wf pa qh] built fresh frame by fastforce
qed

theorem settingsPages_first_call_witness:
  "plugin_inv (sample_env False) sample_plugin \<and> \<not> pages_built sample_plugin \<and>
   (\<exists>ps s'. settingsPages (sample_env False) sample_plugin = Inr (ps, s') \<and>
       pages_of (heap s') ps = Some (default_settings (sample_env False)))"
  using settingsPages_first_call [OF sample_plugin_inv sample_not_built] sample_plugin_inv sample_not_built
  by blast

text \<open>
  C18. \<open>settingsPages\<close> is idempotent: whenever a call returns, a second call returns
  the same list and changes nothing; in particular it never allocates the pages twice.
\<close>

theorem settingsPages_idempotent:
  assumes "settingsPages E s = Inr (ps, s')"
  shows "settingsPages E s' = Inr (ps, s')"
proof -
  from assms obtain d where d: "deref_priv (p_ptr s) (heap s) = Inr d"
    by (cases "deref_priv (p_ptr s) (heap s)") (auto simp: settingsPages_def)
  show ?thesis
  proof (cases "pGeneral d = NULL")
    case True
    obtain d' h' where pop: "populate_pages E (d, heap s) = (d', h')" by fastforce
    from assms d True pop obtain h'' where st: "store (p_ptr s) (PrivObj d') h' = Inr h''"
      and res: "ps = settingsList d'" "s' = s\<lparr>heap := h''\<rparr>"
      by (cases "store (p_ptr s) (PrivObj d') h'") (auto simp: settingsPages_def)
    have "pGeneral d' \<noteq> NULL" using populate_pages_general [of E d "heap s"] pop by simp
    with deref_priv_store [OF st] res show ?thesis by (simp add: settingsPages_def)
  next
    case False
    with assms d show ?thesis by (simp add: settingsPages_def)
  qed
qed

theorem settingsPages_idempotent_witness:
  "\<exists>ps s'. settingsPages (sample_env True) sample_plugin = Inr (ps, s') \<and>
      settingsPages (sample_env True) s' = Inr (ps, s')"
proof -
  obtain ps s' where run: "settingsPages (sample_env True) sample_plugin = Inr (ps, s')"
    using settingsPages_returns [OF sample_plugin_inv] by fastforce
  show ?thesis using run settingsPages_idempotent [OF run] by blast
qed

text \<open>
  C2. Refinement of the spec's registry: from any state satisfying the invariant,
  \<open>settingsPages\<close> returns, and the pages it returns and the registry after the call are
  those of the abstract operation \<open>registry_pages\<close> applied to the abstract registry
  before the call.
\<close>

theorem settingsPages_refines_registry:
  assumes inv: "plugin_inv E s"
  shows "\<exists>ps s'. settingsPages E s = Inr (ps, s') \<and>
           pages_of (heap s') ps = Some (fst (registry_pages E (abs_registry s))) \<and>
           abs_registry s' = snd (registry_pages E (abs_registry s))"
proof -
  from inv obtain a d where p: "p_ptr s = Ptr a" and pa: "objs (heap s) a = Some (PrivObj d)"
    and pinv: "priv_inv E (heap s) a d" and wf: "heap_wf (heap s)"
    by (rule plugin_invE)
  show ?thesis
  proof (cases "pGeneral d = NULL")
    case True
    with pinv have list0: "settingsList d = []" by (simp add: priv_inv_def)
    obtain qs h1 where qh: "alloc_pages (default_settings E) (heap s) = (qs, h1)" by fastforce
    let ?d' = "assign_pages qs d"
    let ?h' = "h1\<lparr>objs := (objs h1)(a \<mapsto> PrivObj ?d')\<rparr>"
    have run: "settingsPages E s = Inr (qs, s\<lparr>heap := ?h'\<rparr>)"
      using settingsPages_fresh [OF wf p pa True qh] list0 by simp
    have len: "length qs = length (default_settings E)"
      using alloc_pages_ptrs [of "default_settings E" "heap s"] qh by simp
    have "pGeneral ?d' \<noteq> NULL"
      using populate_pages_general [of E d "heap s"] qh by (simp add: populate_pages_eq_alloc)
    moreover have "settingsList ?d' = qs" using assign_pages_fields(2) [OF len] list0 by simp
    moreover have "abs_registry s = None" using p pa True by (simp add: abs_registry_def)
    ultimately show ?thesis
      using run p settingsPages_fresh_pages [OF wf pa qh]
      by (simp add: abs_registry_def registry_pages_def)
  next
    case False
    with pinv have "list_all (is_settings (heap s)) (settingsList d)" by (simp add: priv_inv_def)
    then obtain l where l: "pages_of (heap s) (settingsList d) = Some l"
      using pages_of_settings by blast
    have "settingsPages E s = Inr (settingsList d, s)"
      using settingsPages_built [of s d E] p pa False by simp
    with l p pa False show ?thesis by (simp add: abs_registry_def registry_pages_def)
  qed
qed

theorem settingsPages_refines_registry_witness:
  "plugin_inv (sample_env True) sample_plugin \<and>
   (\<exists>ps s'. settingsPages (sample_env True) sample_plugin = Inr (ps, s') \<and>
      pages_of (heap s') ps = Some (fst (registry_pages (sample_env True) (abs_registry sample_plugin))) \<and>
      abs_registry s' = snd (registry_pages (sample_env True) (abs_registry sample_plugin)))"
  using settingsPages_refines_registry [OF sample_plugin_inv] sample_plugin_inv by blast

text \<open>\<open>settingsPages\<close> preserves the ownership invariant.\<close>

lemma settingsPages_inv_step:
  assumes inv: "plugin_inv E s" and run: "settingsPages E s = Inr (ps, s')"
  shows "plugin_inv E s'"
proof -
  from inv obtain a d where p: "p_ptr s = Ptr a" and pa: "objs (heap s) a = Some (PrivObj d)"
    and pinv: "priv_inv E (heap s) a d" and wf: "heap_wf (heap s)"
    by (rule plugin_invE)
  show ?thesis
  proof (cases "pGeneral d = NULL")
    case True
    obtain qs h1 where qh: "alloc_pages (default_settings E) (heap s) = (qs, h1)" by fastforce
    from run settingsPages_fresh [OF wf p pa True qh]
    have "s' = s\<lparr>heap := h1\<lparr>objs := (objs h1)(a \<mapsto> PrivObj (assign_pages qs d))\<rparr>\<rparr>" by simp
    with settingsPages_fresh_inv [OF inv p pa True qh] show ?thesis by simp
  next
    case False
    with run p pa have "s' = s" using settingsPages_built [of s d E] by simp
    with inv show ?thesis by simp
  qed
qed


text \<open>How the call changes what the plugin owns: the owned set only grows, and no object outside it changes.\<close>

lemma built_pages_null_addrs:
  "pGeneral d = NULL \<Longrightarrow> priv_inv E h a d \<Longrightarrow> ptr_addrs (built_pages E d) = []"
  by (rule ptr_addrs_all_null) (auto simp: priv_inv_def built_pages_def list_all_iff)

lemma settingsPages_owned_step:
  assumes inv: "plugin_inv E s" and run: "settingsPages E s = Inr (ps, s')"
  shows "plugin_owned E s \<subseteq> plugin_owned E s' \<and>
         (\<forall>b. b \<notin> plugin_owned E s' \<longrightarrow> objs (heap s') b = objs (heap s) b) \<and>
         lim (heap s) \<le> lim (heap s') \<and>
         plugin_owned E s' \<subseteq> plugin_owned E s \<union> {lim (heap s)..<lim (heap s')}"
proof -
  from inv obtain a d where p: "p_ptr s = Ptr a" and pa: "objs (heap s) a = Some (PrivObj d)"
    and pinv: "priv_inv E (heap s) a d" and wf: "heap_wf (heap s)"
    by (rule plugin_invE)
  show ?thesis
  proof (cases "pGeneral d = NULL")
    case True
    obtain qs h1 where qh: "alloc_pages (default_settings E) (heap s) = (qs, h1)" by fastforce
    let ?d' = "assign_pages qs d"
    let ?h' = "h1\<lparr>objs := (objs h1)(a \<mapsto> PrivObj ?d')\<rparr>"
    have s': "s' = s\<lparr>heap := ?h'\<rparr>"
      using settingsPages_fresh [OF wf p pa True qh] run by simp
    have qs: "qs = map Ptr [lim (heap s)..<lim (heap s) + length (default_settings E)]"
      using alloc_pages_ptrs [of "default_settings E" "heap s"] qh by simp
    then have len: "length qs = length (default_settings E)" by simp
    have own: "plugin_owned E s = insert a (set (ptr_addrs [defaultOptions d]))"
      using p pa built_pages_null_addrs [OF True pinv] by (simp add: plugin_owned_def owned_ptrs_def)
    have own': "plugin_owned E s' = insert a (set (ptr_addrs qs) \<union> set (ptr_addrs [defaultOptions d]))"
      using p s' by (simp add: plugin_owned_def owned_ptrs_def assign_pages_fields [OF len])
    have h1: "objs h1 b = objs (heap s) b" if "b \<notin> set (ptr_addrs qs)" for b
      using alloc_pages_objs [of "default_settings E" "heap s" b] qh qs that by auto
    have lim': "lim (heap s') = lim (heap s) + length (default_settings E)"
      using alloc_pages_lim [of "default_settings E" "heap s"] qh s' by simp
    show ?thesis using own own' h1 s' lim' qs by auto
  next
    case False
    then have "s' = s" using settingsPages_built [of s d E] p pa run by simp
    then show ?thesis by simp
  qed
qed


text \<open>What the registry abstraction depends on: the private object and the pages it owns.\<close>

lemma pages_of_frame:
  "\<forall>b \<in> set (ptr_addrs qs). objs h' b = objs h b \<Longrightarrow> pages_of h' qs = pages_of h qs"
proof -
  assume same: "\<forall>b \<in> set (ptr_addrs qs). objs h' b = objs h b"
  have "settings_at h' q = settings_at h q" if "q \<in> set qs" for q
    using same that by (cases q) (auto simp: set_ptr_addrs)
  then show ?thesis unfolding pages_of_def by (metis map_eq_conv)
qed

lemma abs_registry_frame:
  assumes inv: "plugin_inv E s" and p: "p_ptr s' = p_ptr s"
    and same: "\<forall>b \<in> plugin_owned E s. objs (heap s') b = objs (heap s) b"
  shows "abs_registry s' = abs_registry s \<and> pages_built s' = pages_built s"
proof -
  from inv obtain a d where pa0: "p_ptr s = Ptr a" and pa: "objs (heap s) a = Some (PrivObj d)"
    and pinv: "priv_inv E (heap s) a d"
    by (rule plugin_invE)
  have own: "plugin_owned E s = set (a # ptr_addrs (owned_ptrs E d))"
    using pa0 pa by (simp add: plugin_owned_def)
  with same pa have pa': "objs (heap s') a = Some (PrivObj d)" by simp
  have "set (ptr_addrs (settingsList d)) \<subseteq> plugin_owned E s"
    using pinv own by (auto simp: priv_inv_def owned_ptrs_def split: if_splits)
  with same have "pages_of (heap s') (settingsList d) = pages_of (heap s) (settingsList d)"
    by (intro pages_of_frame) blast
  then show ?thesis using p pa0 pa pa' by (simp add: abs_registry_def pages_built_def)
qed

lemma settingsPages_fresh_registry:
  assumes inv: "plugin_inv E s" and nb: "\<not> pages_built s" and run: "settingsPages E s = Inr (ps, s')"
  shows "pages_built s' \<and> abs_registry s' = Some (default_settings E) \<and>
         pages_of (heap s') ps = Some (default_settings E)"
proof -
  from inv obtain a d where p: "p_ptr s = Ptr a" and pa: "objs (heap s) a = Some (PrivObj d)"
    and pinv: "priv_inv E (heap s) a d" and wf: "heap_wf (heap s)"
    by (rule plugin_invE)
  from nb p pa have null: "pGeneral d = NULL" by (simp add: pages_built_def)
  with pinv have list0: "settingsList d = []" by (simp add: priv_inv_def)
  obtain qs h1 where qh: "alloc_pages (default_settings E) (heap s) = (qs, h1)" by fastforce
  let ?d' = "assign_pages qs d"
  let ?h' = "h1\<lparr>objs := (objs h1)(a \<mapsto> PrivObj ?d')\<rparr>"
  have res: "ps = qs" "s' = s\<lparr>heap := ?h'\<rparr>"
    using settingsPages_fresh [OF wf p pa null qh] list0 run by simp_all
  have len: "length qs = length (default_settings E)"
    using alloc_pages_ptrs [of "default_settings E" "heap s"] qh by simp
  have "pGeneral ?d' \<noteq> NULL"
    using populate_pages_general [of E d "heap s"] qh by (simp add: populate_pages_eq_alloc)
  moreover have "settingsList ?d' = qs" using assign_pages_fields(2) [OF len] list0 by simp
  ultimately show ?thesis
    using res p settingsPages_fresh_pages [OF wf pa qh]
    by (simp add: abs_registry_def pages_built_def)
qed

end
