(* ===== verification/Options.thy ===== *)
theory Options
  imports CorePluginData
begin

text \<open>
  \<open>QGCCorePlugin::options\<close> (\<open>QGCCorePlugin.cc\<close>, lines 142--148): the options object is
  created on the first call, kept in \<open>_p->defaultOptions\<close>, and returned on every call.
  The lemmas show that every call returns the same live object, that the first call
  allocates it fresh and touches nothing else, and that the ownership invariant is kept.
\<close>

definition options :: "plugin_state \<Rightarrow> (ptr \<times> plugin_state) except" where
  "options s =
     bindE (deref_priv (p_ptr s) (heap s)) (\<lambda>d.
       if defaultOptions d = NULL then
         (let (q, h') = new_obj (OptionsObj DefaultQGCOptions) (heap s);
              d' = d\<lparr>defaultOptions := q\<rparr>
          in bindE (store (p_ptr s) (PrivObj d') h') (\<lambda>h''. Inr (q, s\<lparr>heap := h''\<rparr>)))
       else Inr (defaultOptions d, s))"

subsection \<open>Lemmas\<close>

lemma options_existing:
  "deref_priv (p_ptr s) (heap s) = Inr d \<Longrightarrow> defaultOptions d \<noteq> NULL \<Longrightarrow>
   options s = Inr (defaultOptions d, s)"
  by (simp add: options_def)

lemma options_fresh:
  assumes "heap_wf (heap s)" and "p_ptr s = Ptr a" and "objs (heap s) a = Some (PrivObj d)"
    and "defaultOptions d = NULL"
  shows "options s =
           Inr (Ptr (lim (heap s)),
                s\<lparr>heap := (snd (new_obj (OptionsObj DefaultQGCOptions) (heap s)))
                   \<lparr>objs := (objs (heap s))(lim (heap s) \<mapsto> OptionsObj DefaultQGCOptions,
                                          a \<mapsto> PrivObj (d\<lparr>defaultOptions := Ptr (lim (heap s))\<rparr>))\<rparr>\<rparr>)"
proof -
  have "a \<noteq> lim (heap s)" using heap_wf_below [OF assms(1,3)] by simp
  then show ?thesis using assms by (simp add: options_def new_obj_def)
qed

text \<open>Every address the private object owns lies below the allocation limit.\<close>

lemma priv_inv_owned_below:
  "heap_wf h \<Longrightarrow> priv_inv E h a d \<Longrightarrow> b \<in> set (ptr_addrs (owned_ptrs E d)) \<Longrightarrow> b < lim h"
  by (meson heap_wf_below not_None_eq priv_inv_owned_live)

lemma options_fresh_inv:
  assumes inv: "plugin_inv E s" and p: "p_ptr s = Ptr a" and pa: "objs (heap s) a = Some (PrivObj d)"
    and null: "defaultOptions d = NULL"
  shows "plugin_inv E (s\<lparr>heap := (snd (new_obj (OptionsObj DefaultQGCOptions) (heap s)))
                   \<lparr>objs := (objs (heap s))(lim (heap s) \<mapsto> OptionsObj DefaultQGCOptions,
                                          a \<mapsto> PrivObj (d\<lparr>defaultOptions := Ptr (lim (heap s))\<rparr>))\<rparr>\<rparr>)"
proof -
  let ?n = "lim (heap s)" and ?d' = "d\<lparr>defaultOptions := Ptr (lim (heap s))\<rparr>"
  let ?h' = "(snd (new_obj (OptionsObj DefaultQGCOptions) (heap s)))
               \<lparr>objs := (objs (heap s))(?n \<mapsto> OptionsObj DefaultQGCOptions, a \<mapsto> PrivObj ?d')\<rparr>"
  from inv p pa have wf: "heap_wf (heap s)" and pinv: "priv_inv E (heap s) a d"
    by (auto elim: plugin_invE)
  have a_lt: "a < ?n" using heap_wf_below [OF wf pa] .
  have below: "b < ?n" if "b \<in> set (ptr_addrs (owned_ptrs E d))" for b
    using priv_inv_owned_below [OF wf pinv that] .
  have dist: "distinct (a # ptr_addrs (owned_ptrs E d))" using pinv by (simp add: priv_inv_def)
  have wf': "heap_wf ?h'"
    using wf a_lt by (auto simp: heap_wf_def new_obj_def less_SucI)
  have "\<forall>b \<in> set (ptr_addrs (owned_ptrs E d)). objs ?h' b = objs (heap s) b"
    using below dist by (auto simp: new_obj_def)
  then have pinv_h': "priv_inv E ?h' a d"
    using priv_inv_frame pinv by blast
  have same: "built_pages E ?d' = built_pages E d" "page_fields ?d' = page_fields d"
    "debug_fields ?d' = debug_fields d"
    by (simp_all add: built_pages_def page_fields_def debug_fields_def)
  have proj: "pGeneral ?d' = pGeneral d" "settingsList ?d' = settingsList d" by simp_all
  have opt: "defaultOptions ?d' = NULL \<or> is_options ?h' (defaultOptions ?d')"
    using a_lt by (simp add: new_obj_def)
  have dist': "distinct (a # ptr_addrs (owned_ptrs E ?d'))"
    using dist null below a_lt same(1) by (fastforce simp: owned_ptrs_def)
  have "priv_inv E ?h' a ?d'"
    unfolding priv_inv_def same proj using pinv_h' [unfolded priv_inv_def] opt dist' by blast
  with wf' p show ?thesis by (simp add: plugin_inv_def new_obj_def)
qed

lemma options_returns:
  assumes "plugin_inv E s"
  shows "\<exists>r. options s = Inr r"
proof -
  from assms obtain a d where p: "p_ptr s = Ptr a" and pa: "objs (heap s) a = Some (PrivObj d)"
    and wf: "heap_wf (heap s)"
    by (rule plugin_invE)
  show ?thesis
    using options_fresh [OF wf p pa] options_existing [of s d] p pa
    by (cases "defaultOptions d = NULL") auto
qed

lemma options_inv_step:
  assumes inv: "plugin_inv E s" and run: "options s = Inr (q, s')"
  shows "plugin_inv E s'"
proof -
  from inv obtain a d where p: "p_ptr s = Ptr a" and pa: "objs (heap s) a = Some (PrivObj d)"
    and wf: "heap_wf (heap s)"
    by (rule plugin_invE)
  show ?thesis
  proof (cases "defaultOptions d = NULL")
    case True
    have "Inr (q, s') = options s" using run by simp
    with options_fresh [OF wf p pa True] options_fresh_inv [OF inv p pa True] show ?thesis
      by (metis prod.inject sum.inject(2))
  next
    case False
    with run options_existing [of s d] p pa inv show ?thesis by simp
  qed
qed

text \<open>
  C3. \<open>options\<close> always hands out one instance: whenever a call returns a pointer, the
  pointer is not null and a second call returns the same pointer and changes nothing.
\<close>

theorem options_same_instance:
  assumes "options s = Inr (q, s')"
  shows "q \<noteq> NULL \<and> options s' = Inr (q, s')"
proof -
  from assms obtain d where d: "deref_priv (p_ptr s) (heap s) = Inr d"
    by (cases "deref_priv (p_ptr s) (heap s)") (auto simp: options_def)
  show ?thesis
  proof (cases "defaultOptions d = NULL")
    case True
    let ?d' = "d\<lparr>defaultOptions := Ptr (lim (heap s))\<rparr>"
    from assms d True obtain h'' where
      st: "store (p_ptr s) (PrivObj ?d') (snd (new_obj (OptionsObj DefaultQGCOptions) (heap s))) = Inr h''"
      and res: "q = Ptr (lim (heap s))" "s' = s\<lparr>heap := h''\<rparr>"
      by (cases "store (p_ptr s) (PrivObj ?d') (snd (new_obj (OptionsObj DefaultQGCOptions) (heap s)))")
         (auto simp: options_def new_obj_def)
    have "deref_priv (p_ptr s) h'' = Inr ?d'"
      using st by (cases "p_ptr s") (auto split: option.splits)
    with res show ?thesis by (simp add: options_def)
  next
    case False
    with assms d show ?thesis by (simp add: options_def)
  qed
qed

theorem options_same_instance_witness:
  "\<exists>q s'. options sample_plugin = Inr (q, s') \<and> q \<noteq> NULL \<and> options s' = Inr (q, s')"
proof -
  obtain q s' where run: "options sample_plugin = Inr (q, s')"
    using options_returns [OF sample_plugin_inv [of False]] by fastforce
  show ?thesis using run options_same_instance [OF run] by blast
qed

text \<open>
  C19. Under the invariant \<open>options\<close> returns a live options object, keeps the
  invariant, and changes no object other than the private object and the options object.
\<close>

theorem options_ok_inv:
  assumes inv: "plugin_inv E s"
  shows "\<exists>q s'. options s = Inr (q, s') \<and> is_options (heap s') q \<and> plugin_inv E s' \<and>
           (\<forall>b. p_ptr s \<noteq> Ptr b \<and> q \<noteq> Ptr b \<longrightarrow> objs (heap s') b = objs (heap s) b)"
proof -
  from inv obtain a d where p: "p_ptr s = Ptr a" and pa: "objs (heap s) a = Some (PrivObj d)"
    and pinv: "priv_inv E (heap s) a d" and wf: "heap_wf (heap s)"
    by (rule plugin_invE)
  show ?thesis
  proof (cases "defaultOptions d = NULL")
    case True
    have "a \<noteq> lim (heap s)" using heap_wf_below [OF wf pa] by simp
    then show ?thesis
      using options_fresh [OF wf p pa True] options_inv_step [OF inv options_fresh [OF wf p pa True]] p
      by (auto simp: new_obj_def)
  next
    case False
    with pinv have "is_options (heap s) (defaultOptions d)" by (simp add: priv_inv_def)
    with options_existing [of s d] p pa False inv show ?thesis by auto
  qed
qed

theorem options_ok_inv_witness:
  "plugin_inv (sample_env True) sample_plugin \<and>
   (\<exists>q s'. options sample_plugin = Inr (q, s') \<and> is_options (heap s') q \<and>
      plugin_inv (sample_env True) s')"
  using options_ok_inv [OF sample_plugin_inv [of True]] sample_plugin_inv [of True] by blast


text \<open>How the call changes what the plugin owns: the owned set only grows, and no object outside it changes.\<close>

lemma options_owned_step:
  assumes inv: "plugin_inv E s" and run: "options s = Inr (q, s')"
  shows "plugin_owned E s \<subseteq> plugin_owned E s' \<and>
         (\<forall>b. b \<notin> plugin_owned E s' \<longrightarrow> objs (heap s') b = objs (heap s) b) \<and>
         lim (heap s) \<le> lim (heap s') \<and>
         plugin_owned E s' \<subseteq> plugin_owned E s \<union> {lim (heap s)..<lim (heap s')}"
proof -
  from inv obtain a d where p: "p_ptr s = Ptr a" and pa: "objs (heap s) a = Some (PrivObj d)"
    and wf: "heap_wf (heap s)"
    by (rule plugin_invE)
  show ?thesis
  proof (cases "defaultOptions d = NULL")
    case True
    let ?n = "lim (heap s)" and ?d' = "d\<lparr>defaultOptions := Ptr (lim (heap s))\<rparr>"
    have s': "s' = s\<lparr>heap := (snd (new_obj (OptionsObj DefaultQGCOptions) (heap s)))
                   \<lparr>objs := (objs (heap s))(?n \<mapsto> OptionsObj DefaultQGCOptions, a \<mapsto> PrivObj ?d')\<rparr>\<rparr>"
      using options_fresh [OF wf p pa True] run by simp
    have bp: "built_pages E ?d' = built_pages E d"
      by (simp add: built_pages_def page_fields_def debug_fields_def)
    have own: "plugin_owned E s = insert a (set (ptr_addrs (built_pages E d)))"
      using p pa True by (simp add: plugin_owned_def owned_ptrs_def)
    have own': "plugin_owned E s' = insert a (set (ptr_addrs (built_pages E d)) \<union> {?n})"
      using p s' bp by (simp add: plugin_owned_def owned_ptrs_def)
    show ?thesis using own own' s' by (auto simp: new_obj_def)
  next
    case False
    then have "s' = s" using options_existing [of s d] p pa run by simp
    then show ?thesis by simp
  qed
qed

end
