(* ===== verification/UiToggles.thy ===== *)
theory UiToggles
  imports CorePluginData
begin

text \<open>
  The two UI switches of \<open>QGCCorePlugin\<close> (\<open>QGCCorePlugin.cc\<close>, lines 183--197):
  \<open>setShowTouchAreas\<close> and \<open>setShowAdvancedUI\<close> store the new value and emit the
  matching change signal, but only when the value changes. Emitted signals are appended
  to \<open>emitted\<close>, the order an observer connected to the plugin sees them in.
  \<open>touch_signals\<close> and \<open>advanced_signals\<close> project that log onto one signal each;
  \<open>alternates\<close> says that a log starts from the initial value and that every signal
  reports a change; the lifecycle theory proves it for every reachable state.
\<close>

definition setShowTouchAreas :: "bool \<Rightarrow> plugin_state \<Rightarrow> plugin_state" where
  "setShowTouchAreas show s =
     (if show \<noteq> showTouchAreas_v s
      then s\<lparr>showTouchAreas_v := show, emitted := emitted s @ [showTouchAreasChanged show]\<rparr>
      else s)"

definition setShowAdvancedUI :: "bool \<Rightarrow> plugin_state \<Rightarrow> plugin_state" where
  "setShowAdvancedUI show s =
     (if show \<noteq> showAdvancedUI_v s
      then s\<lparr>showAdvancedUI_v := show, emitted := emitted s @ [showAdvancedUIChanged show]\<rparr>
      else s)"

definition touch_signals :: "signal list \<Rightarrow> bool list" where
  "touch_signals xs = [b. showTouchAreasChanged b \<leftarrow> xs]"

definition advanced_signals :: "signal list \<Rightarrow> bool list" where
  "advanced_signals xs = [b. showAdvancedUIChanged b \<leftarrow> xs]"

text \<open>\<open>alternates v bs\<close>: starting from \<open>v\<close>, each value differs from the one before.\<close>

fun alternates :: "bool \<Rightarrow> bool list \<Rightarrow> bool" where
  "alternates v [] = True"
| "alternates v (b # bs) = (b \<noteq> v \<and> alternates b bs)"

text \<open>
  The observer's view: the signals of each switch alternate from the initial value
  (false for touch areas, true for advanced mode), and the value last signalled is the
  current value of the field.
\<close>

definition signals_consistent :: "plugin_state \<Rightarrow> bool" where
  "signals_consistent s \<longleftrightarrow>
     alternates False (touch_signals (emitted s)) \<and>
     last (False # touch_signals (emitted s)) = showTouchAreas_v s \<and>
     alternates True (advanced_signals (emitted s)) \<and>
     last (True # advanced_signals (emitted s)) = showAdvancedUI_v s"

subsection \<open>Lemmas\<close>

lemma alternates_snoc:
  "alternates v (bs @ [b]) \<longleftrightarrow> alternates v bs \<and> b \<noteq> last (v # bs)"
  by (induction v bs rule: alternates.induct) auto

lemma touch_signals_append [simp]:
  "touch_signals (xs @ ys) = touch_signals xs @ touch_signals ys"
  "touch_signals [showTouchAreasChanged b] = [b]"
  "touch_signals [showAdvancedUIChanged b] = []"
  by (simp_all add: touch_signals_def)

lemma advanced_signals_append [simp]:
  "advanced_signals (xs @ ys) = advanced_signals xs @ advanced_signals ys"
  "advanced_signals [showAdvancedUIChanged b] = [b]"
  "advanced_signals [showTouchAreasChanged b] = []"
  by (simp_all add: advanced_signals_def)

lemma setShowTouchAreas_frame [simp]:
  "heap (setShowTouchAreas b s) = heap s" "p_ptr (setShowTouchAreas b s) = p_ptr s"
  "showAdvancedUI_v (setShowTouchAreas b s) = showAdvancedUI_v s"
  by (simp_all add: setShowTouchAreas_def)

lemma setShowAdvancedUI_frame [simp]:
  "heap (setShowAdvancedUI b s) = heap s" "p_ptr (setShowAdvancedUI b s) = p_ptr s"
  "showTouchAreas_v (setShowAdvancedUI b s) = showTouchAreas_v s"
  by (simp_all add: setShowAdvancedUI_def)

lemma signals_consistent_touch:
  "signals_consistent s \<Longrightarrow> signals_consistent (setShowTouchAreas b s)"
  by (auto simp: signals_consistent_def setShowTouchAreas_def alternates_snoc)

lemma signals_consistent_advanced:
  "signals_consistent s \<Longrightarrow> signals_consistent (setShowAdvancedUI b s)"
  by (auto simp: signals_consistent_def setShowAdvancedUI_def alternates_snoc)

end
