(* ===== verification/RootWindow.thy ===== *)
theory RootWindow
  imports CorePluginData
begin

text \<open>
  \<open>QGCCorePlugin::createRootWindow\<close> (\<open>QGCCorePlugin.cc\<close>, lines 219--227) and
  \<open>QGCCorePlugin::setToolbox\<close> (lines 92--98). The first allocates a
  \<open>QQmlApplicationEngine\<close> whose parent is the caller's object, adds the import path,
  sets the two context properties and loads the main window; each call goes through the
  pointer \<open>pEngine\<close>, as \<open>engine_call\<close>. The engine belongs to its parent, not to the
  plugin. The second registers the plugin and the options type with QML as uncreatable
  types and declares the plugin C++-owned.
\<close>

fun engine_call :: "(QQmlApplicationEngine \<Rightarrow> QQmlApplicationEngine) \<Rightarrow> ptr \<Rightarrow> obj heap \<Rightarrow> obj heap except" where
  "engine_call f NULL h = Inl NullDeref"
| "engine_call f (Ptr a) h =
     (case objs h a of
        None \<Rightarrow> Inl (UseAfterFree a)
      | Some (EngineObj e) \<Rightarrow> Inr (h\<lparr>objs := (objs h)(a \<mapsto> EngineObj (f e))\<rparr>)
      | Some _ \<Rightarrow> Inl (WrongType a))"

definition createRootWindow :: "env \<Rightarrow> ptr \<Rightarrow> plugin_state \<Rightarrow> (ptr \<times> plugin_state) except" where
  "createRootWindow E parent s =
     (let (pEngine, h1) = new_obj (EngineObj (new_QQmlApplicationEngine (default_import_paths E) parent)) (heap s)
      in bindE (engine_call (addImportPath ''qrc:/qml'') pEngine h1) (\<lambda>h2.
         bindE (engine_call (setContextProperty ''joystickManager'' (joystickManager E)) pEngine h2) (\<lambda>h3.
         bindE (engine_call (setContextProperty ''debugMessageModel'' (debugMessageModel E)) pEngine h3) (\<lambda>h4.
         bindE (engine_call (load (QUrl ''qrc:/qml/MainWindowNative.qml'')) pEngine h4) (\<lambda>h5.
         Inr (pEngine, s\<lparr>heap := h5\<rparr>))))))"

text \<open>
  \<open>setToolbox\<close>: the base \<open>QGCTool::setToolbox\<close> stores the toolbox; then the plugin
  object is declared C++-owned and the two types are registered.
\<close>

definition setToolbox :: "ptr \<Rightarrow> plugin_state \<Rightarrow> plugin_state" where
  "setToolbox toolbox s =
     s\<lparr>tool_toolbox := toolbox,
       js_ownership := Some CppOwnership,
       qml_types := qmlRegisterUncreatableType ''QGCOptions'' ''QGroundControl.QGCOptions'' 1 0
                      ''QGCOptions'' ''Reference only''
                      (qmlRegisterUncreatableType ''QGCCorePlugin'' ''QGroundControl.QGCCorePlugin'' 1 0
                         ''QGCCorePlugin'' ''Reference only'' (qml_types s))\<rparr>"

text \<open>The engine \<open>createRootWindow\<close> builds, as a value.\<close>

definition root_engine :: "env \<Rightarrow> ptr \<Rightarrow> QQmlApplicationEngine" where
  "root_engine E parent =
     load (QUrl ''qrc:/qml/MainWindowNative.qml'')
       (setContextProperty ''debugMessageModel'' (debugMessageModel E)
         (setContextProperty ''joystickManager'' (joystickManager E)
           (addImportPath ''qrc:/qml'' (new_QQmlApplicationEngine (default_import_paths E) parent))))"

subsection \<open>Lemmas\<close>

lemma createRootWindow_eq:
  "createRootWindow E parent s =
     Inr (Ptr (lim (heap s)),
          s\<lparr>heap := \<lparr>objs = (objs (heap s))(lim (heap s) \<mapsto> EngineObj (root_engine E parent)),
                       lim = Suc (lim (heap s)), \<dots> = heap.more (heap s)\<rparr>\<rparr>)"
  by (simp add: createRootWindow_def new_obj_def root_engine_def)

lemma root_engine_props:
  "engine_parent (root_engine E parent) = parent"
  "importPathList (root_engine E parent) =
     (if ''qrc:/qml'' \<in> set (default_import_paths E) then default_import_paths E
      else ''qrc:/qml'' # default_import_paths E)"
  "map_of (contextProperties (root_engine E parent)) ''joystickManager'' = Some (joystickManager E)"
  "map_of (contextProperties (root_engine E parent)) ''debugMessageModel'' = Some (debugMessageModel E)"
  "loadedUrls (root_engine E parent) = [QUrl ''qrc:/qml/MainWindowNative.qml'']"
  by (simp_all add: root_engine_def load_def setContextProperty_def addImportPath_def
      new_QQmlApplicationEngine_def update_conv')

lemma createRootWindow_inv_step:
  assumes inv: "plugin_inv E s" and run: "createRootWindow E parent s = Inr (q, s')"
  shows "plugin_inv E s' \<and> plugin_owned E s' = plugin_owned E s \<and>
         q = Ptr (lim (heap s)) \<and> lim (heap s) \<notin> plugin_owned E s"
proof -
  let ?n = "lim (heap s)"
  from run createRootWindow_eq [of E parent s]
  have q: "q = Ptr ?n" and s': "s' = s\<lparr>heap := \<lparr>objs = (objs (heap s))(?n \<mapsto> EngineObj (root_engine E parent)),
                          lim = Suc ?n, \<dots> = heap.more (heap s)\<rparr>\<rparr>"
    by simp_all
  from inv have wf: "heap_wf (heap s)" by (auto elim: plugin_invE)
  have fresh: "objs (heap s) ?n = None" using heap_wf_fresh [OF wf] .
  have notn: "b \<noteq> ?n" if "b \<in> plugin_owned E s" for b
    using plugin_owned_live [OF inv that] fresh by auto
  then have same: "\<forall>b \<in> plugin_owned E s. objs (heap s') b = objs (heap s) b"
    using s' by simp
  have wf': "heap_wf (heap s')"
    using wf s' by (auto simp: heap_wf_def less_SucI)
  have "plugin_inv E s'"
    using plugin_inv_frame [OF inv _ wf' same] s' by simp
  moreover have "plugin_owned E s' = plugin_owned E s"
    using plugin_owned_frame [OF _ same inv] s' by simp
  ultimately show ?thesis using q notn by blast
qed

text \<open>
  C20. Under the invariant \<open>createRootWindow\<close> returns a fresh engine whose parent is the
  given object, whose import path list holds \<open>qrc:/qml\<close>, whose root context maps
  \<open>joystickManager\<close> and \<open>debugMessageModel\<close> to the two globals, and which has
  loaded exactly the main window; the plugin keeps its invariant, owns exactly what it
  owned before, and in particular does not own the engine, so its destructor never
  frees it.
\<close>

theorem createRootWindow_ok:
  assumes inv: "plugin_inv E s"
  shows "\<exists>b e s'. createRootWindow E parent s = Inr (Ptr b, s') \<and>
           objs (heap s) b = None \<and> objs (heap s') b = Some (EngineObj e) \<and>
           engine_parent e = parent \<and> ''qrc:/qml'' \<in> set (importPathList e) \<and>
           map_of (contextProperties e) ''joystickManager'' = Some (joystickManager E) \<and>
           map_of (contextProperties e) ''debugMessageModel'' = Some (debugMessageModel E) \<and>
           loadedUrls e = [QUrl ''qrc:/qml/MainWindowNative.qml''] \<and>
           plugin_inv E s' \<and> plugin_owned E s' = plugin_owned E s \<and> b \<notin> plugin_owned E s'"
proof -
  obtain q s' where run: "createRootWindow E parent s = Inr (q, s')"
    using createRootWindow_eq [of E parent s] by blast
  from inv have "objs (heap s) (lim (heap s)) = None" by (auto elim: plugin_invE intro: heap_wf_fresh)
  then show ?thesis
    using run createRootWindow_eq [of E parent s] createRootWindow_inv_step [OF inv run]
      root_engine_props [of E parent]
    by (auto split: if_splits)
qed

theorem createRootWindow_ok_witness:
  "plugin_inv (sample_env True) sample_plugin \<and>
   (\<exists>b e s'. createRootWindow (sample_env True) (Ptr 0) sample_plugin = Inr (Ptr b, s') \<and>
      objs (heap s') b = Some (EngineObj e) \<and> engine_parent e = Ptr 0 \<and>
      map_of (contextProperties e) ''joystickManager'' = Some (Ptr 100) \<and>
      plugin_inv (sample_env True) s')"
  using createRootWindow_ok [OF sample_plugin_inv [of True], of "Ptr 0"] sample_plugin_inv [of True]
  by (fastforce simp: sample_env_def)

end
