(* ===== verification/Lifecycle.thy ===== *)
theory Lifecycle
  imports SettingsPages Options UiToggles RootWindow
begin

text \<open>
  The plugin over its whole life. The operations that change state are one datatype of
  calls with one step function, \<open>plugin_call\<close>; the reachable states are those built
  by the constructor on a well-formed heap that holds only objects of the rest of the
  application (this file's code has created nothing yet), and then any interleaving of calls with the
  activity of the rest of the application, which allocates objects of its own and
  deletes objects the plugin does not own (the engines returned by
  \<open>createRootWindow\<close> among them). Rule induction over \<open>reachable\<close> carries the
  ownership invariant and the observer's view of the signals to every reachable state.
  Runs of calls (\<open>run_calls\<close>) keep the QML registration that \<open>setToolbox\<close> makes.
\<close>

datatype call =
    SettingsPagesCall
  | OptionsCall
  | SetShowTouchAreasCall bool
  | SetShowAdvancedUICall bool
  | CreateRootWindowCall ptr
  | SetToolboxCall ptr

datatype call_result = ListResult "ptr list" | PtrResult ptr | UnitResult

fun plugin_call :: "env \<Rightarrow> call \<Rightarrow> plugin_state \<Rightarrow> (call_result \<times> plugin_state) except" where
  "plugin_call E SettingsPagesCall s = bindE (settingsPages E s) (\<lambda>(ps, s'). Inr (ListResult ps, s'))"
| "plugin_call E OptionsCall s = bindE (options s) (\<lambda>(q, s'). Inr (PtrResult q, s'))"
| "plugin_call E (SetShowTouchAreasCall b) s = Inr (UnitResult, setShowTouchAreas b s)"
| "plugin_call E (SetShowAdvancedUICall b) s = Inr (UnitResult, setShowAdvancedUI b s)"
| "plugin_call E (CreateRootWindowCall parent) s =
     bindE (createRootWindow E parent s) (\<lambda>(q, s'). Inr (PtrResult q, s'))"
| "plugin_call E (SetToolboxCall toolbox) s = Inr (UnitResult, setToolbox toolbox s)"

text \<open>A sequence of calls, in order; the first error ends it, as the exception would.\<close>

fun run_calls :: "env \<Rightarrow> plugin_state \<Rightarrow> call list \<Rightarrow> (call_result list \<times> plugin_state) except" where
  "run_calls E s [] = Inr ([], s)"
| "run_calls E s (c # cs) =
     bindE (plugin_call E c s) (\<lambda>(r, s').
       bindE (run_calls E s' cs) (\<lambda>(rs, s''). Inr (r # rs, s'')))"

text \<open>
  The C++ types of the plugin's pointers: \<open>_p\<close> is a \<open>QGCCorePlugin_p*\<close>, the page
  fields are \<open>QGCSettings*\<close>, every entry of \<open>settingsList\<close> is a
  \<open>QVariant::fromValue((QGCSettings*)...)\<close>, and \<open>defaultOptions\<close> is a
  \<open>QGCOptions*\<close>. A state is well typed when each of them is null or names a live object
  of that type (the list entries and \<open>_p\<close> are never null).
\<close>

definition typed_state :: "plugin_state \<Rightarrow> bool" where
  "typed_state s \<longleftrightarrow>
     (case deref_priv (p_ptr s) (heap s) of
        Inl _ \<Rightarrow> False
      | Inr d \<Rightarrow>
          list_all (\<lambda>q. q = NULL \<or> is_settings (heap s) q) (page_fields d @ debug_fields d) \<and>
          list_all (is_settings (heap s)) (settingsList d) \<and>
          (defaultOptions d = NULL \<or> is_options (heap s) (defaultOptions d)))"

text \<open>
  What \<open>setToolbox\<close> establishes for QML: the plugin object is C++-owned, and both
  uncreatable types are registered.
\<close>

definition toolbox_registered :: "plugin_state \<Rightarrow> bool" where
  "toolbox_registered s \<longleftrightarrow>
     js_ownership s = Some CppOwnership \<and>
     \<lparr>reg_uri = ''QGroundControl.QGCCorePlugin'', reg_major = 1, reg_minor = 0,
      reg_qmlName = ''QGCCorePlugin'', reg_reason = ''Reference only'', reg_cpp_type = ''QGCCorePlugin''\<rparr>
       \<in> set (qml_types s) \<and>
     \<lparr>reg_uri = ''QGroundControl.QGCOptions'', reg_major = 1, reg_minor = 0,
      reg_qmlName = ''QGCOptions'', reg_reason = ''Reference only'', reg_cpp_type = ''QGCOptions''\<rparr>
       \<in> set (qml_types s)"

inductive reachable :: "env \<Rightarrow> plugin_state \<Rightarrow> bool" for E where
  construct: "heap_wf h \<Longrightarrow> \<forall>x \<in> ran (objs h). app_obj x \<Longrightarrow>
     reachable E (QGCCorePlugin_ctor app toolbox h)"
| call: "reachable E s \<Longrightarrow> plugin_call E c s = Inr (r, s') \<Longrightarrow> reachable E s'"
| foreign_new: "reachable E s \<Longrightarrow> reachable E (s\<lparr>heap := snd (new_obj (ForeignObj k) (heap s))\<rparr>)"
| foreign_delete: "reachable E s \<Longrightarrow> b \<notin> plugin_owned E s \<Longrightarrow> delete_obj (Ptr b) (heap s) = Inr h' \<Longrightarrow>
     reachable E (s\<lparr>heap := h'\<rparr>)"

subsection \<open>Lemmas\<close>

fun_cases plugin_call_SettingsPagesE: "plugin_call E SettingsPagesCall s = Inr (r, s')"
fun_cases plugin_call_OptionsE: "plugin_call E OptionsCall s = Inr (r, s')"
fun_cases plugin_call_CreateRootWindowE: "plugin_call E (CreateRootWindowCall parent) s = Inr (r, s')"

text \<open>The heap operations change the heap only; the switches change no heap at all.\<close>

lemma settingsPages_heap_only: "settingsPages E s = Inr (ps, s') \<Longrightarrow> s' = s\<lparr>heap := heap s'\<rparr>"
  by (auto simp: settingsPages_def bindE_eq_Inr split_def Let_def split: if_splits)

lemma options_heap_only: "options s = Inr (q, s') \<Longrightarrow> s' = s\<lparr>heap := heap s'\<rparr>"
  by (auto simp: options_def bindE_eq_Inr split_def Let_def split: if_splits)

lemma createRootWindow_heap_only: "createRootWindow E parent s = Inr (q, s') \<Longrightarrow> s' = s\<lparr>heap := heap s'\<rparr>"
  using createRootWindow_eq [of E parent s] by auto

lemma plugin_inv_cong:
  "heap s' = heap s \<Longrightarrow> p_ptr s' = p_ptr s \<Longrightarrow> plugin_inv E s' = plugin_inv E s"
  by (simp only: plugin_inv_def)

lemma plugin_owned_cong:
  "heap s' = heap s \<Longrightarrow> p_ptr s' = p_ptr s \<Longrightarrow> plugin_owned E s' = plugin_owned E s"
  by (simp only: plugin_owned_def)

lemma signals_consistent_heap [simp]: "signals_consistent (s\<lparr>heap := h\<rparr>) = signals_consistent s"
  by (simp add: signals_consistent_def)

lemma signals_consistent_setToolbox [simp]:
  "signals_consistent (setToolbox toolbox s) = signals_consistent s"
  by (simp add: signals_consistent_def setToolbox_def)

lemma plugin_call_inv:
  assumes inv: "plugin_inv E s" and run: "plugin_call E c s = Inr (r, s')"
  shows "plugin_inv E s'"
proof (cases c)
  case SettingsPagesCall
  with run obtain ps where "settingsPages E s = Inr (ps, s')" by (auto simp: bindE_eq_Inr)
  then show ?thesis by (rule settingsPages_inv_step [OF inv])
next
  case OptionsCall
  with run obtain q where "options s = Inr (q, s')" by (auto simp: bindE_eq_Inr)
  then show ?thesis by (rule options_inv_step [OF inv])
next
  case (CreateRootWindowCall parent)
  with run obtain q where "createRootWindow E parent s = Inr (q, s')" by (auto simp: bindE_eq_Inr)
  then show ?thesis using createRootWindow_inv_step [OF inv] by blast
next
  case (SetShowTouchAreasCall b)
  with run have "s' = setShowTouchAreas b s" by simp
  then show ?thesis by (auto intro: plugin_inv_cong [THEN iffD2, OF _ _ inv] simp: setShowTouchAreas_def)
next
  case (SetShowAdvancedUICall b)
  with run have "s' = setShowAdvancedUI b s" by simp
  then show ?thesis by (auto intro: plugin_inv_cong [THEN iffD2, OF _ _ inv] simp: setShowAdvancedUI_def)
next
  case (SetToolboxCall toolbox)
  with run have "s' = setToolbox toolbox s" by simp
  then show ?thesis by (auto intro: plugin_inv_cong [THEN iffD2, OF _ _ inv] simp: setToolbox_def)
qed

lemma plugin_call_signals:
  assumes sc: "signals_consistent s" and run: "plugin_call E c s = Inr (r, s')"
  shows "signals_consistent s'"
proof (cases c)
  case SettingsPagesCall
  with run obtain ps where "settingsPages E s = Inr (ps, s')" by (auto simp: bindE_eq_Inr)
  then have "s' = s\<lparr>heap := heap s'\<rparr>" by (rule settingsPages_heap_only)
  with sc show ?thesis by (metis signals_consistent_heap)
next
  case OptionsCall
  with run obtain q where "options s = Inr (q, s')" by (auto simp: bindE_eq_Inr)
  then have "s' = s\<lparr>heap := heap s'\<rparr>" by (rule options_heap_only)
  with sc show ?thesis by (metis signals_consistent_heap)
next
  case (CreateRootWindowCall parent)
  with run obtain q where "createRootWindow E parent s = Inr (q, s')" by (auto simp: bindE_eq_Inr)
  then have "s' = s\<lparr>heap := heap s'\<rparr>" by (rule createRootWindow_heap_only)
  with sc show ?thesis by (metis signals_consistent_heap)
next
  case (SetShowTouchAreasCall b)
  with run have "s' = setShowTouchAreas b s" by simp
  with sc show ?thesis by (simp add: signals_consistent_touch)
next
  case (SetShowAdvancedUICall b)
  with run have "s' = setShowAdvancedUI b s" by simp
  with sc show ?thesis by (simp add: signals_consistent_advanced)
next
  case (SetToolboxCall toolbox)
  with run have "s' = setToolbox toolbox s" by simp
  with sc show ?thesis by simp
qed

text \<open>An owned object is live, so it never sits at the address \<open>new\<close> hands out next.\<close>

lemma plugin_owned_not_fresh:
  assumes inv: "plugin_inv E s" and b: "b \<in> plugin_owned E s"
  shows "b \<noteq> lim (heap s)"
proof
  assume eq: "b = lim (heap s)"
  from inv have "heap_wf (heap s)" by (auto elim: plugin_invE)
  then have "objs (heap s) (lim (heap s)) = None" by (rule heap_wf_fresh)
  with eq plugin_owned_live [OF inv b] show False by simp
qed

lemma foreign_new_frame:
  assumes inv: "plugin_inv E s"
  shows "\<forall>b \<in> plugin_owned E s. objs (snd (new_obj x (heap s))) b = objs (heap s) b"
proof -
  have "b \<noteq> lim (heap s)" if "b \<in> plugin_owned E s" for b
    using inv that by (rule plugin_owned_not_fresh)
  then show ?thesis by (simp add: heap_simps)
qed

lemma foreign_delete_frame:
  assumes b: "b \<notin> plugin_owned E s" and del: "delete_obj (Ptr b) (heap s) = Inr h'"
  shows "\<forall>c \<in> plugin_owned E s. objs h' c = objs (heap s) c"
proof
  fix c
  assume "c \<in> plugin_owned E s"
  with b have "c \<noteq> b" by blast
  with del show "objs h' c = objs (heap s) c" by (auto split: option.splits)
qed

lemma foreign_new_inv:
  assumes inv: "plugin_inv E s"
  shows "plugin_inv E (s\<lparr>heap := snd (new_obj x (heap s))\<rparr>)"
proof -
  from inv have wf: "heap_wf (heap s)" by (auto elim: plugin_invE)
  then have "heap_wf (snd (new_obj x (heap s)))" by (rule heap_wf_new_obj)
  with foreign_new_frame [OF inv] show ?thesis by (intro plugin_inv_frame [OF inv]) simp_all
qed

lemma foreign_delete_inv:
  assumes inv: "plugin_inv E s" and b: "b \<notin> plugin_owned E s"
    and del: "delete_obj (Ptr b) (heap s) = Inr h'"
  shows "plugin_inv E (s\<lparr>heap := h'\<rparr>)"
proof -
  from inv have wf: "heap_wf (heap s)" by (auto elim: plugin_invE)
  from del have h': "h' = (heap s)\<lparr>objs := objs (heap s) |` (- {b})\<rparr>"
    by (auto simp: restrict_map_def fun_eq_iff split: option.splits)
  have "heap_wf h'" using heap_wf_restrict [OF wf] h' by simp
  with foreign_delete_frame [OF b del] show ?thesis by (intro plugin_inv_frame [OF inv]) simp_all
qed

lemma foreign_new_owned:
  assumes inv: "plugin_inv E s"
  shows "plugin_owned E (s\<lparr>heap := snd (new_obj x (heap s))\<rparr>) = plugin_owned E s"
  using foreign_new_frame [OF inv] by (intro plugin_owned_frame [OF _ _ inv]) simp_all

lemma foreign_delete_owned:
  assumes inv: "plugin_inv E s" and b: "b \<notin> plugin_owned E s"
    and del: "delete_obj (Ptr b) (heap s) = Inr h'"
  shows "plugin_owned E (s\<lparr>heap := h'\<rparr>) = plugin_owned E s"
  using foreign_delete_frame [OF b del] by (intro plugin_owned_frame [OF _ _ inv]) simp_all

text \<open>The invariant holds in every reachable state: rule induction over \<open>reachable\<close>.\<close>

lemma reachable_plugin_inv: "reachable E s \<Longrightarrow> plugin_inv E s"
proof (induction rule: reachable.induct)
  case (construct h app toolbox)
  from construct.hyps(1) show ?case by (rule QGCCorePlugin_ctor_inv)
next
  case (call s c r s')
  then show ?case by (blast intro: plugin_call_inv)
next
  case (foreign_new s k)
  then show ?case by (blast intro: foreign_new_inv)
next
  case (foreign_delete s b h')
  then show ?case by (blast intro: foreign_delete_inv)
qed

lemma plugin_call_returns:
  assumes "plugin_inv E s"
  shows "\<exists>r s'. plugin_call E c s = Inr (r, s')"
proof (cases c)
  case SettingsPagesCall
  then show ?thesis using settingsPages_returns [OF assms] by auto
next
  case OptionsCall
  then show ?thesis using options_returns [OF assms] by auto
next
  case (CreateRootWindowCall parent)
  then show ?thesis using createRootWindow_eq [of E parent s] by simp
qed simp_all

text \<open>The constructed plugin has emitted nothing and holds the initial switch values.\<close>

lemma QGCCorePlugin_ctor_signals: "signals_consistent (QGCCorePlugin_ctor app toolbox h)"
  by (simp add: QGCCorePlugin_ctor_def signals_consistent_def Let_def split_def touch_signals_def
      advanced_signals_def)

lemma sample_plugin_reachable: "reachable E sample_plugin"
  unfolding sample_plugin_def by (rule reachable.construct) (simp_all add: heap_wf_def)

text \<open>
  C8. Every call on a reachable plugin returns: along any interleaving of the plugin's
  operations with foreign allocation and deletion, no operation dereferences a null,
  dangling or mistyped pointer.
\<close>

theorem reachable_calls_safe:
  assumes "reachable E s"
  shows "\<exists>r s'. plugin_call E c s = Inr (r, s')"
  using plugin_call_returns [OF reachable_plugin_inv [OF assms]] .

theorem reachable_calls_safe_witness:
  "reachable (sample_env True) sample_plugin \<and>
   (\<exists>r s'. plugin_call (sample_env True) SettingsPagesCall sample_plugin = Inr (r, s'))"
  using reachable_calls_safe [OF sample_plugin_reachable] sample_plugin_reachable by blast

text \<open>
  C4. In every reachable state an observer connected to the change signals sees, for each
  switch, a sequence of values alternating from the initial one, the last of which is
  the current value.
\<close>

theorem reachable_signals_consistent:
  assumes "reachable E s"
  shows "signals_consistent s"
  using assms
proof (induction rule: reachable.induct)
  case (construct h app toolbox)
  show ?case by (rule QGCCorePlugin_ctor_signals)
next
  case (call s c r s')
  then show ?case by (blast intro: plugin_call_signals)
next
  case (foreign_new s k)
  then show ?case by simp
next
  case (foreign_delete s b h')
  then show ?case by simp
qed

theorem reachable_signals_consistent_witness:
  "reachable (sample_env False) (setShowTouchAreas True sample_plugin) \<and>
   signals_consistent (setShowTouchAreas True sample_plugin)"
proof -
  have "plugin_call (sample_env False) (SetShowTouchAreasCall True) sample_plugin =
          Inr (UnitResult, setShowTouchAreas True sample_plugin)" by simp
  then have r: "reachable (sample_env False) (setShowTouchAreas True sample_plugin)"
    by (rule reachable.call [OF sample_plugin_reachable])
  show ?thesis using r reachable_signals_consistent [OF r] by blast
qed


text \<open>A run of calls from a reachable state ends in a reachable state.\<close>

lemma run_calls_reachable:
  "reachable E s \<Longrightarrow> run_calls E s cs = Inr (rs, s') \<Longrightarrow> reachable E s'"
proof (induction cs arbitrary: s rs)
  case Nil
  then show ?case by simp
next
  case (Cons c cs)
  from Cons.prems(2) obtain r s1 rs1 where c: "plugin_call E c s = Inr (r, s1)"
    and rest: "run_calls E s1 cs = Inr (rs1, s')"
    by (auto simp: bindE_eq_Inr split: prod.splits)
  have "reachable E s1" using Cons.prems(1) c by (rule reachable.call)
  then show ?case using rest by (rule Cons.IH)
qed

lemma plugin_inv_typed: "plugin_inv E s \<Longrightarrow> typed_state s"
proof -
  assume inv: "plugin_inv E s"
  then obtain a d where p: "p_ptr s = Ptr a" and pa: "objs (heap s) a = Some (PrivObj d)"
    and pinv: "priv_inv E (heap s) a d"
    by (rule plugin_invE)
  have "list_all (\<lambda>q. q = NULL \<or> is_settings (heap s) q) (page_fields d @ debug_fields d)"
    using pinv
    by (cases "qt_debug E")
       (auto simp: priv_inv_def built_pages_def list_all_iff split: if_splits)
  moreover have "list_all (is_settings (heap s)) (settingsList d)"
    using pinv by (auto simp: priv_inv_def split: if_splits)
  moreover have "defaultOptions d = NULL \<or> is_options (heap s) (defaultOptions d)"
    using pinv by (simp add: priv_inv_def)
  ultimately show ?thesis using p pa by (simp add: typed_state_def)
qed

text \<open>
  C10. Every reachable state is well typed: each pointer the plugin holds is null or names
  a live object of its declared C++ type, and every entry of the list \<open>settingsPages\<close>
  returns is a live \<open>QGCSettings\<close>.
\<close>

theorem reachable_typed:
  assumes "reachable E s"
  shows "typed_state s"
  using reachable_plugin_inv [OF assms] by (rule plugin_inv_typed)

theorem reachable_typed_witness:
  "reachable (sample_env True) sample_plugin \<and> typed_state sample_plugin"
  using reachable_typed [OF sample_plugin_reachable] sample_plugin_reachable by blast


subsection \<open>Registration with QML, and use after destruction\<close>

lemma toolbox_registered_heap [simp]: "toolbox_registered (s\<lparr>heap := h\<rparr>) = toolbox_registered s"
  by (simp add: toolbox_registered_def)

lemma setToolbox_registered: "toolbox_registered (setToolbox toolbox s)"
  by (simp add: toolbox_registered_def setToolbox_def qmlRegisterUncreatableType_def)

lemma plugin_call_registered:
  assumes reg: "toolbox_registered s" and run: "plugin_call E c s = Inr (r, s')"
  shows "toolbox_registered s'"
proof (cases c)
  case SettingsPagesCall
  with run obtain ps where "settingsPages E s = Inr (ps, s')" by (auto simp: bindE_eq_Inr)
  then have "s' = s\<lparr>heap := heap s'\<rparr>" by (rule settingsPages_heap_only)
  with reg show ?thesis by (metis toolbox_registered_heap)
next
  case OptionsCall
  with run obtain q where "options s = Inr (q, s')" by (auto simp: bindE_eq_Inr)
  then have "s' = s\<lparr>heap := heap s'\<rparr>" by (rule options_heap_only)
  with reg show ?thesis by (metis toolbox_registered_heap)
next
  case (CreateRootWindowCall parent)
  with run obtain q where "createRootWindow E parent s = Inr (q, s')" by (auto simp: bindE_eq_Inr)
  then have "s' = s\<lparr>heap := heap s'\<rparr>" by (rule createRootWindow_heap_only)
  with reg show ?thesis by (metis toolbox_registered_heap)
next
  case (SetShowTouchAreasCall b)
  with run have "s' = setShowTouchAreas b s" by simp
  with reg show ?thesis by (cases "b = showTouchAreas_v s \<or> b = showAdvancedUI_v s")
    (auto simp: toolbox_registered_def setShowTouchAreas_def)
next
  case (SetShowAdvancedUICall b)
  with run have "s' = setShowAdvancedUI b s" by simp
  with reg show ?thesis by (cases "b = showTouchAreas_v s \<or> b = showAdvancedUI_v s")
    (auto simp: toolbox_registered_def setShowAdvancedUI_def)
next
  case (SetToolboxCall toolbox)
  with run have "s' = setToolbox toolbox s" by simp
  then show ?thesis by (simp add: setToolbox_registered)
qed

lemma run_calls_registered:
  "toolbox_registered s \<Longrightarrow> run_calls E s cs = Inr (rs, s') \<Longrightarrow> toolbox_registered s'"
proof (induction cs arbitrary: s rs)
  case Nil
  then show ?case by simp
next
  case (Cons c cs)
  from Cons.prems(2) obtain r s1 rs1 where c: "plugin_call E c s = Inr (r, s1)"
    and rest: "run_calls E s1 cs = Inr (rs1, s')"
    by (auto simp: bindE_eq_Inr split: prod.splits)
  have "toolbox_registered s1" using Cons.prems(1) c by (rule plugin_call_registered)
  then show ?case using rest by (rule Cons.IH)
qed

lemma run_calls_returns:
  "plugin_inv E s \<Longrightarrow> \<exists>rs s'. run_calls E s cs = Inr (rs, s') \<and> plugin_inv E s'"
proof (induction cs arbitrary: s)
  case Nil
  then show ?case by simp
next
  case (Cons c cs)
  obtain r s1 where c: "plugin_call E c s = Inr (r, s1)" using plugin_call_returns [OF Cons.prems] by blast
  have "plugin_inv E s1" using Cons.prems c by (rule plugin_call_inv)
  then obtain rs s' where "run_calls E s1 cs = Inr (rs, s')" and "plugin_inv E s'" using Cons.IH by blast
  with c show ?case by auto
qed

text \<open>
  C16. Once \<open>setToolbox\<close> has run, QML holds the plugin as C++-owned and knows both
  uncreatable types, whatever the host does next: for every run of calls that contains
  a \<open>setToolbox\<close> call, the final state declares \<open>CppOwnership\<close> for the plugin, so the
  QML engine never garbage-collects it, and registers \<open>QGCCorePlugin\<close> and
  \<open>QGCOptions\<close> under their URIs, version 1.0, as ``Reference only''.
\<close>

theorem run_calls_toolbox_registered:
  assumes run: "run_calls E s cs = Inr (rs, s')" and tb: "SetToolboxCall toolbox \<in> set cs"
  shows "toolbox_registered s'"
  using run tb
proof (induction cs arbitrary: s rs)
  case Nil
  then show ?case by simp
next
  case (Cons c cs)
  from Cons.prems(1) obtain r s1 rs1 where c: "plugin_call E c s = Inr (r, s1)"
    and rest: "run_calls E s1 cs = Inr (rs1, s')"
    by (auto simp: bindE_eq_Inr split: prod.splits)
  show ?case
  proof (cases "c = SetToolboxCall toolbox")
    case True
    with c have "s1 = setToolbox toolbox s" by simp
    then have "toolbox_registered s1" by (simp add: setToolbox_registered)
    then show ?thesis using rest by (rule run_calls_registered)
  next
    case False
    with Cons.prems(2) have "SetToolboxCall toolbox \<in> set cs" by simp
    with rest show ?thesis by (rule Cons.IH)
  qed
qed

theorem run_calls_toolbox_registered_witness:
  "\<exists>rs s'. run_calls (sample_env True) sample_plugin [SettingsPagesCall, SetToolboxCall NULL, OptionsCall] = Inr (rs, s') \<and>
     SetToolboxCall NULL \<in> set [SettingsPagesCall, SetToolboxCall NULL, OptionsCall] \<and> toolbox_registered s'"
proof -
  obtain rs s' where run: "run_calls (sample_env True) sample_plugin [SettingsPagesCall, SetToolboxCall NULL, OptionsCall] = Inr (rs, s')"
    using run_calls_returns [OF sample_plugin_inv] by blast
  show ?thesis using run run_calls_toolbox_registered [OF run] by simp
qed

end
