(* ===== verification/Ordering.thy ===== *)
theory Ordering
  imports Lifecycle
begin

text \<open>
  The order in which a host makes the lazy requests. \<open>observe\<close> is what a caller of the
  plugin can see: the settings registry, the options object, the two switches and the
  signals emitted; addresses are not observable, since they differ with the order of
  allocation. The theory shows that \<open>settingsPages\<close> and \<open>options\<close> commute on it,
  that from every reachable state the two requests lead, in one call each, to a
  state that no further request changes, and that \<open>options\<close> refines the spec's
  options provider \<open>options_provider\<close> through \<open>options_inst\<close>.
\<close>

definition options_of :: "plugin_state \<Rightarrow> QGCOptions option" where
  "options_of s =
     (case deref_priv (p_ptr s) (heap s) of
        Inl _ \<Rightarrow> None
      | Inr d \<Rightarrow>
          (case defaultOptions d of
             NULL \<Rightarrow> None
           | Ptr b \<Rightarrow> (case objs (heap s) b of Some (OptionsObj x) \<Rightarrow> Some x | _ \<Rightarrow> None)))"

definition observe ::
    "plugin_state \<Rightarrow> QGCSettings list option \<times> QGCOptions option \<times> bool \<times> bool \<times> signal list" where
  "observe s = (abs_registry s, options_of s, showTouchAreas_v s, showAdvancedUI_v s, emitted s)"

text \<open>
  The spec's \<open>OptionsProvider\<close> (section 4.2): an optional options instance, absent
  until the first request, which creates one; every request returns the instance held.
  The fresh instance a first request creates is a parameter of the abstract event; the
  implementation supplies its allocator's next address. \<open>options_inst\<close> reads the
  instance held by the plugin: the \<open>defaultOptions\<close> pointer, absent while null.
\<close>

definition options_provider :: "'o \<Rightarrow> 'o option \<Rightarrow> 'o \<times> 'o option" where
  "options_provider fresh r = (case r of None \<Rightarrow> (fresh, Some fresh) | Some q \<Rightarrow> (q, Some q))"

definition options_inst :: "plugin_state \<Rightarrow> ptr option" where
  "options_inst s =
     (case deref_priv (p_ptr s) (heap s) of
        Inl _ \<Rightarrow> None
      | Inr d \<Rightarrow> (if defaultOptions d = NULL then None else Some (defaultOptions d)))"

subsection \<open>How each request changes what is observed\<close>

lemma options_registry:
  assumes inv: "plugin_inv E s" and run: "options s = Inr (q, s')"
  shows "abs_registry s' = abs_registry s \<and> pages_built s' = pages_built s"
proof -
  from inv obtain a d where p: "p_ptr s = Ptr a" and pa: "objs (heap s) a = Some (PrivObj d)"
    and pinv: "priv_inv E (heap s) a d" and wf: "heap_wf (heap s)"
    by (rule plugin_invE)
  show ?thesis
  proof (cases "defaultOptions d = NULL")
    case True
    let ?n = "lim (heap s)" and ?d' = "d\<lparr>defaultOptions := Ptr (lim (heap s))\<rparr>"
    have s': "s' = s\<lparr>heap := (snd (new_obj (OptionsObj DefaultQGCOptions) (heap s)))
                   \<lparr>objs := (objs (heap s))(?n \<mapsto> OptionsObj DefaultQGCOptions, a \<mapsto> PrivObj ?d')\<rparr>\<rparr>"
      using options_fresh [OF wf p pa True] run by simp
    have sub: "set (ptr_addrs (settingsList d)) \<subseteq> set (ptr_addrs (owned_ptrs E d))"
      using pinv by (auto simp: priv_inv_def owned_ptrs_def split: if_splits)
    have "b \<noteq> a \<and> b \<noteq> ?n" if "b \<in> set (ptr_addrs (settingsList d))" for b
    proof -
      from that sub have own: "b \<in> set (ptr_addrs (owned_ptrs E d))" by blast
      with pinv have "b \<noteq> a" by (auto simp: priv_inv_def)
      moreover have "b \<noteq> ?n" using priv_inv_owned_below [OF wf pinv own] by simp
      ultimately show ?thesis ..
    qed
    then have "pages_of (heap s') (settingsList d) = pages_of (heap s) (settingsList d)"
      using s' by (intro pages_of_frame) simp
    then show ?thesis using p pa s' by (simp add: abs_registry_def pages_built_def)
  next
    case False
    then have "s' = s" using options_existing [of s d] p pa run by simp
    then show ?thesis by simp
  qed
qed

lemma settingsPages_options_of:
  assumes inv: "plugin_inv E s" and run: "settingsPages E s = Inr (ps, s')"
  shows "options_of s' = options_of s \<and> pages_built s' \<and>
         abs_registry s' = (if pages_built s then abs_registry s else Some (default_settings E)) \<and>
         lim (heap s') = lim (heap s) + (if pages_built s then 0 else length (default_settings E))"
proof -
  from inv obtain a d where p: "p_ptr s = Ptr a" and pa: "objs (heap s) a = Some (PrivObj d)"
    and pinv: "priv_inv E (heap s) a d" and wf: "heap_wf (heap s)"
    by (rule plugin_invE)
  show ?thesis
  proof (cases "pGeneral d = NULL")
    case True
    then have nb: "\<not> pages_built s" using p pa by (simp add: pages_built_def)
    obtain qs h1 where qh: "alloc_pages (default_settings E) (heap s) = (qs, h1)" by fastforce
    let ?d' = "assign_pages qs d"
    let ?h' = "h1\<lparr>objs := (objs h1)(a \<mapsto> PrivObj ?d')\<rparr>"
    have s': "s' = s\<lparr>heap := ?h'\<rparr>"
      using settingsPages_fresh [OF wf p pa True qh] run by simp
    have len: "length (fst (alloc_pages (default_settings E) (heap s))) = length (default_settings E)"
      by (simp add: alloc_pages_ptrs)
    then have len': "length qs = length (default_settings E)" using qh by simp
    have same: "objs ?h' b = objs (heap s) b" if "b < lim (heap s)" "b \<noteq> a" for b
      using alloc_pages_objs [of "default_settings E" "heap s" b] qh that by simp
    have "options_of s' = options_of s"
    proof (cases "defaultOptions d")
      case (Ptr b)
      then have own: "b \<in> set (ptr_addrs (owned_ptrs E d))" by (simp add: owned_ptrs_def)
      have "b < lim (heap s)" using priv_inv_owned_below [OF wf pinv own] .
      moreover have "b \<noteq> a" using pinv own by (auto simp: priv_inv_def)
      ultimately show ?thesis using same Ptr p pa s' assign_pages_fields(4) [OF len']
        by (simp add: options_of_def)
    qed (use p pa s' assign_pages_fields(4) [OF len'] in \<open>simp add: options_of_def\<close>)
    moreover have "lim (heap s') = lim (heap s) + length (default_settings E)"
      using alloc_pages_lim [of "default_settings E" "heap s"] qh s' by simp
    ultimately show ?thesis using settingsPages_fresh_registry [OF inv nb run] nb by simp
  next
    case False
    then have "s' = s" using settingsPages_built [of s d E] p pa run by simp
    with False p pa show ?thesis by (simp add: pages_built_def)
  qed
qed

lemma options_options_of:
  assumes inv: "plugin_inv E s" and run: "options s = Inr (q, s')"
  shows "options_of s' = Some (case options_of s of None \<Rightarrow> DefaultQGCOptions | Some x \<Rightarrow> x) \<and>
         lim (heap s') = lim (heap s) + (if options_of s = None then 1 else 0)"
proof -
  from inv obtain a d where p: "p_ptr s = Ptr a" and pa: "objs (heap s) a = Some (PrivObj d)"
    and pinv: "priv_inv E (heap s) a d" and wf: "heap_wf (heap s)"
    by (rule plugin_invE)
  show ?thesis
  proof (cases "defaultOptions d = NULL")
    case True
    have "a \<noteq> lim (heap s)" using heap_wf_below [OF wf pa] by simp
    then show ?thesis
      using options_fresh [OF wf p pa True] run p pa True by (auto simp: options_of_def new_obj_def)
  next
    case False
    with pinv obtain b x where b: "defaultOptions d = Ptr b" "objs (heap s) b = Some (OptionsObj x)"
      by (auto simp: priv_inv_def dest!: is_options_live)
    from False have "s' = s" using options_existing [of s d] p pa run by simp
    with b p pa show ?thesis by (simp add: options_of_def)
  qed
qed

lemma options_frame_fields:
  "options s = Inr (q, s') \<Longrightarrow>
   showTouchAreas_v s' = showTouchAreas_v s \<and> showAdvancedUI_v s' = showAdvancedUI_v s \<and>
   emitted s' = emitted s"
  by (auto simp: options_def bindE_eq_Inr split_def Let_def split: if_splits)

lemma settingsPages_frame_fields:
  "settingsPages E s = Inr (ps, s') \<Longrightarrow>
   showTouchAreas_v s' = showTouchAreas_v s \<and> showAdvancedUI_v s' = showAdvancedUI_v s \<and>
   emitted s' = emitted s"
  by (auto simp: settingsPages_def bindE_eq_Inr split_def Let_def split: if_splits)

text \<open>Once the pages are built and the options object exists, both requests are fixed points.\<close>

lemma settled_stable:
  assumes "pages_built s" and "options_of s \<noteq> None"
  shows "(\<exists>ps. settingsPages E s = Inr (ps, s)) \<and> (\<exists>q. options s = Inr (q, s))"
proof -
  from assms(1) obtain d where d: "deref_priv (p_ptr s) (heap s) = Inr d" and g: "pGeneral d \<noteq> NULL"
    by (auto simp: pages_built_def split: sum.splits)
  from assms(2) d have o: "defaultOptions d \<noteq> NULL" by (auto simp: options_of_def)
  show ?thesis using settingsPages_built [OF d g] options_existing [OF d o] by blast
qed

subsection \<open>The two lazy requests commute\<close>

text \<open>
  C11. The order of the lazy requests does not matter to a caller: from every state
  satisfying the invariant, asking for the settings pages and then the options, or the
  options and then the settings pages, both succeed, leave the same registry, the same
  options object, the same switches and signals, and allocate the same number of objects.
\<close>

theorem lazy_requests_commute:
  assumes inv: "plugin_inv E s"
  shows "\<exists>rs1 s1 rs2 s2.
           run_calls E s [SettingsPagesCall, OptionsCall] = Inr (rs1, s1) \<and>
           run_calls E s [OptionsCall, SettingsPagesCall] = Inr (rs2, s2) \<and>
           observe s1 = observe s2 \<and> lim (heap s1) = lim (heap s2)"
proof -
  obtain ps sa where a1: "settingsPages E s = Inr (ps, sa)" using settingsPages_returns [OF inv] by fastforce
  have inva: "plugin_inv E sa" using inv a1 by (rule settingsPages_inv_step)
  obtain q sa2 where a2: "options sa = Inr (q, sa2)" using options_returns [OF inva] by fastforce
  obtain q' sb where b1: "options s = Inr (q', sb)" using options_returns [OF inv] by fastforce
  have invb: "plugin_inv E sb" using inv b1 by (rule options_inv_step)
  obtain ps' sb2 where b2: "settingsPages E sb = Inr (ps', sb2)"
    using settingsPages_returns [OF invb] by fastforce
  have ra: "run_calls E s [SettingsPagesCall, OptionsCall] = Inr ([ListResult ps, PtrResult q], sa2)"
    using a1 a2 by simp
  have rb: "run_calls E s [OptionsCall, SettingsPagesCall] = Inr ([PtrResult q', ListResult ps'], sb2)"
    using b1 b2 by simp
  have "observe sa2 = observe sb2 \<and> lim (heap sa2) = lim (heap sb2)"
    using settingsPages_options_of [OF inv a1] options_options_of [OF inva a2] options_registry [OF inva a2]
      options_options_of [OF inv b1] options_registry [OF inv b1] settingsPages_options_of [OF invb b2]
      settingsPages_frame_fields [OF a1] options_frame_fields [OF a2]
      options_frame_fields [OF b1] settingsPages_frame_fields [OF b2]
    by (simp add: observe_def)
  with ra rb show ?thesis by blast
qed

theorem lazy_requests_commute_witness:
  "plugin_inv (sample_env True) sample_plugin \<and>
   (\<exists>rs1 s1 rs2 s2.
      run_calls (sample_env True) sample_plugin [SettingsPagesCall, OptionsCall] = Inr (rs1, s1) \<and>
      run_calls (sample_env True) sample_plugin [OptionsCall, SettingsPagesCall] = Inr (rs2, s2) \<and>
      observe s1 = observe s2)"
  using lazy_requests_commute [OF sample_plugin_inv [of True]] sample_plugin_inv [of True] by blast


subsection \<open>The options provider contract\<close>

text \<open>
  C15. Refinement of the spec's \<open>OptionsProvider\<close>: from every state satisfying the
  invariant, \<open>options\<close> returns, and the pointer it returns and the instance the plugin
  holds afterwards are what the abstract provider returns and holds, given the instance
  held before and the allocator's next address as the fresh instance; the pointer names
  a live options object.
\<close>

theorem options_refines_provider:
  assumes inv: "plugin_inv E s"
  shows "\<exists>q s'. options s = Inr (q, s') \<and>
           (q, options_inst s') = options_provider (Ptr (lim (heap s))) (options_inst s) \<and>
           is_options (heap s') q"
proof -
  from inv obtain a d where p: "p_ptr s = Ptr a" and pa: "objs (heap s) a = Some (PrivObj d)"
    and pinv: "priv_inv E (heap s) a d" and wf: "heap_wf (heap s)"
    by (rule plugin_invE)
  show ?thesis
  proof (cases "defaultOptions d = NULL")
    case True
    have "a \<noteq> lim (heap s)" using heap_wf_below [OF wf pa] by simp
    then show ?thesis
      using options_fresh [OF wf p pa True] p pa True
      by (simp add: options_inst_def options_provider_def new_obj_def)
  next
    case False
    with pinv have "is_options (heap s) (defaultOptions d)" by (simp add: priv_inv_def)
    with False p pa show ?thesis
      using options_existing [of s d] by (simp add: options_inst_def options_provider_def)
  qed
qed

theorem options_refines_provider_witness:
  "plugin_inv (sample_env False) sample_plugin \<and>
   (\<exists>s'. options sample_plugin = Inr (Ptr 2, s') \<and> options_inst s' = Some (Ptr 2) \<and>
      is_options (heap s') (Ptr 2))"
proof -
  have "options_inst sample_plugin = None" and "lim (heap sample_plugin) = 2"
    by (simp_all add: options_inst_def sample_plugin_def QGCCorePlugin_ctor_def new_obj_def
        QGCCorePlugin_p_ctor_def)
  then show ?thesis
    using options_refines_provider [OF sample_plugin_inv [of False]] sample_plugin_inv [of False]
    by (auto simp: options_provider_def)
qed

end
