(* ===== verification/ListReference.thy ===== *)
theory ListReference
  imports Lifecycle
begin

text \<open>
  \<open>QGCCorePlugin::settingsPages\<close> returns \<open>QVariantList &\<close>, a reference to
  \<open>_p->settingsList\<close> (\<open>QGCCorePlugin.cc\<close>, line 134), so a caller can change the list
  in place. \<open>settingsList_write f\<close> is such a write: it applies \<open>f\<close> to the list inside
  the private object. The theorems show what the code then does: the guard of
  \<open>settingsPages\<close> tests \<open>pGeneral\<close>, not the list, so an emptied list is never
  refilled; and the destructor frees pages through the seven fields, not through the
  list, so a page a caller adds to the list is shown but outlives the plugin.
\<close>

definition settingsList_write :: "(ptr list \<Rightarrow> ptr list) \<Rightarrow> plugin_state \<Rightarrow> plugin_state except" where
  "settingsList_write f s =
     bindE (deref_priv (p_ptr s) (heap s)) (\<lambda>d.
       bindE (store (p_ptr s) (PrivObj (d\<lparr>settingsList := f (settingsList d)\<rparr>)) (heap s)) (\<lambda>h.
         Inr (s\<lparr>heap := h\<rparr>)))"

subsection \<open>Lemmas\<close>

lemma settingsList_write_eq:
  assumes "p_ptr s = Ptr a" and "objs (heap s) a = Some (PrivObj d)"
  shows "settingsList_write f s =
           Inr (s\<lparr>heap := (heap s)\<lparr>objs := (objs (heap s))(a \<mapsto> PrivObj (d\<lparr>settingsList := f (settingsList d)\<rparr>))\<rparr>\<rparr>)"
  using assms by (simp add: settingsList_write_def)

lemma settingsList_write_returns:
  "plugin_inv E s \<Longrightarrow> \<exists>s'. settingsList_write f s = Inr s'"
  by (auto elim!: plugin_invE simp: settingsList_write_eq)

lemma owned_ptrs_settingsList [simp]: "owned_ptrs E (d\<lparr>settingsList := l\<rparr>) = owned_ptrs E d"
  by (simp add: owned_ptrs_def built_pages_def page_fields_def debug_fields_def)

text \<open>
  C13. An emptied registry is never refilled: when a caller clears the list returned by
  \<open>settingsPages\<close> after the pages were built, every later call returns the empty list
  and the registry stays empty, although the spec populates the registry when it is empty.
\<close>

theorem settingsPages_not_refilled:
  assumes inv: "plugin_inv E s" and built: "pages_built s"
    and w: "settingsList_write (\<lambda>_. []) s = Inr s'"
  shows "settingsPages E s' = Inr ([], s') \<and> abs_registry s' = Some []"
proof -
  from inv obtain a d where p: "p_ptr s = Ptr a" and pa: "objs (heap s) a = Some (PrivObj d)"
    by (rule plugin_invE)
  from built p pa have g: "pGeneral d \<noteq> NULL" by (simp add: pages_built_def)
  from w have s': "s' = s\<lparr>heap := (heap s)\<lparr>objs := (objs (heap s))(a \<mapsto> PrivObj (d\<lparr>settingsList := []\<rparr>))\<rparr>\<rparr>"
    using settingsList_write_eq [OF p pa] by simp
  have d': "deref_priv (p_ptr s') (heap s') = Inr (d\<lparr>settingsList := []\<rparr>)" using s' p by simp
  have "settingsPages E s' = Inr ([], s')" using settingsPages_built [OF d'] g by simp
  moreover have "abs_registry s' = Some []" using d' g by (simp add: abs_registry_def pages_of_def)
  ultimately show ?thesis ..
qed

theorem settingsPages_not_refilled_witness:
  "\<exists>ps s1 s'. settingsPages (sample_env True) sample_plugin = Inr (ps, s1) \<and>
     plugin_inv (sample_env True) s1 \<and> pages_built s1 \<and>
     settingsList_write (\<lambda>_. []) s1 = Inr s' \<and> settingsPages (sample_env True) s' = Inr ([], s')"
proof -
  obtain ps s1 where run: "settingsPages (sample_env True) sample_plugin = Inr (ps, s1)"
    using settingsPages_returns [OF sample_plugin_inv] by fastforce
  have inv1: "plugin_inv (sample_env True) s1" using sample_plugin_inv run by (rule settingsPages_inv_step)
  have built: "pages_built s1"
    using settingsPages_fresh_registry [OF sample_plugin_inv sample_not_built run] by blast
  obtain s' where w: "settingsList_write (\<lambda>_. []) s1 = Inr s'"
    using settingsList_write_returns [OF inv1] by blast
  show ?thesis using run inv1 built w settingsPages_not_refilled [OF inv1 built w] by blast
qed

text \<open>
  C14. A page added through the reference is shown but leaks: when a caller appends a page
  of its own to the list after the pages were built, \<open>settingsPages\<close> returns it, and
  destroying the plugin succeeds but leaves that page on the heap, because
  \<open>~QGCCorePlugin_p\<close> deletes only the pages its fields name.
\<close>

theorem appended_page_outlives_plugin:
  assumes inv: "plugin_inv E s" and built: "pages_built s"
    and b: "objs (heap s) b = Some (SettingsObj x)" and nb: "b \<notin> plugin_owned E s"
    and w: "settingsList_write (\<lambda>l. l @ [Ptr b]) s = Inr s'"
  shows "\<exists>ps h'. settingsPages E s' = Inr (ps, s') \<and> Ptr b \<in> set ps \<and>
           QGCCorePlugin_dtor E s' = Inr h' \<and> objs h' b = Some (SettingsObj x)"
proof -
  from inv obtain a d where p: "p_ptr s = Ptr a" and pa: "objs (heap s) a = Some (PrivObj d)"
    and pinv: "priv_inv E (heap s) a d"
    by (rule plugin_invE)
  let ?d' = "d\<lparr>settingsList := settingsList d @ [Ptr b]\<rparr>"
  from built p pa have g: "pGeneral d \<noteq> NULL" by (simp add: pages_built_def)
  from w have s': "s' = s\<lparr>heap := (heap s)\<lparr>objs := (objs (heap s))(a \<mapsto> PrivObj ?d')\<rparr>\<rparr>"
    using settingsList_write_eq [OF p pa] by simp
  have p': "p_ptr s' = Ptr a" and pa': "objs (heap s') a = Some (PrivObj ?d')" using s' p by simp_all
  have own: "plugin_owned E s = set (a # ptr_addrs (owned_ptrs E d))"
    using p pa by (simp add: plugin_owned_def)
  have dist: "distinct (a # ptr_addrs (owned_ptrs E ?d'))" using pinv by (simp add: priv_inv_def)
  have live: "\<forall>c \<in> set (ptr_addrs (owned_ptrs E ?d')). objs (heap s') c \<noteq> None"
  proof
    fix c
    assume c: "c \<in> set (ptr_addrs (owned_ptrs E ?d'))"
    then have "c \<noteq> a" using dist by auto
    with c s' priv_inv_owned_live [OF pinv] show "objs (heap s') c \<noteq> None" by simp
  qed
  have ba: "b \<noteq> a" using b pa by auto
  have "settingsPages E s' = Inr (settingsList d @ [Ptr b], s')"
    using settingsPages_built [of s' ?d' E] p' pa' g by simp
  moreover have "QGCCorePlugin_dtor E s' =
      Inr ((heap s')\<lparr>objs := objs (heap s') |` (- set (a # ptr_addrs (owned_ptrs E ?d')))\<rparr>)"
    by (rule QGCCorePlugin_dtor_eq_priv [OF p' pa' dist live])
  moreover have "b \<notin> set (a # ptr_addrs (owned_ptrs E ?d'))" using nb own by simp
  ultimately show ?thesis using s' b ba by (simp add: restrict_map_def)
qed

theorem appended_page_outlives_plugin_witness:
  "\<exists>ps s1 s'. settingsPages (sample_env False) sample_plugin = Inr (ps, s1) \<and>
     settingsList_write (\<lambda>l. l @ [Ptr (lim (heap s1))])
       (s1\<lparr>heap := snd (new_obj (SettingsObj (QGCSettings_ctor ''Custom'' QUrl_empty QUrl_empty)) (heap s1))\<rparr>) = Inr s' \<and>
     (\<exists>ps' h'. settingsPages (sample_env False) s' = Inr (ps', s') \<and> Ptr (lim (heap s1)) \<in> set ps' \<and>
        QGCCorePlugin_dtor (sample_env False) s' = Inr h' \<and>
        objs h' (lim (heap s1)) = Some (SettingsObj (QGCSettings_ctor ''Custom'' QUrl_empty QUrl_empty)))"
proof -
  let ?E = "sample_env False" and ?pg = "QGCSettings_ctor ''Custom'' QUrl_empty QUrl_empty"
  obtain ps s1 where run: "settingsPages ?E sample_plugin = Inr (ps, s1)"
    using settingsPages_returns [OF sample_plugin_inv] by fastforce
  have inv1: "plugin_inv ?E s1" using sample_plugin_inv run by (rule settingsPages_inv_step)
  have built1: "pages_built s1"
    using settingsPages_fresh_registry [OF sample_plugin_inv sample_not_built run] by blast
  let ?s2 = "s1\<lparr>heap := snd (new_obj (SettingsObj ?pg) (heap s1))\<rparr>"
  have inv2: "plugin_inv ?E ?s2" using inv1 by (rule foreign_new_inv)
  have fr: "\<forall>c \<in> plugin_owned ?E s1. objs (heap ?s2) c = objs (heap s1) c"
    using foreign_new_frame [OF inv1] by simp
  have built2: "pages_built ?s2" using abs_registry_frame [OF inv1 _ fr] built1 by simp
  have own2: "plugin_owned ?E ?s2 = plugin_owned ?E s1" using inv1 by (rule foreign_new_owned)
  have nb: "lim (heap s1) \<notin> plugin_owned ?E ?s2"
    using own2 plugin_owned_not_fresh [OF inv1] by blast
  have b: "objs (heap ?s2) (lim (heap s1)) = Some (SettingsObj ?pg)" by (simp add: heap_simps)
  obtain s' where w: "settingsList_write (\<lambda>l. l @ [Ptr (lim (heap s1))]) ?s2 = Inr s'"
    using settingsList_write_returns [OF inv2] by blast
  show ?thesis using run w appended_page_outlives_plugin [OF inv2 built2 b nb w] by blast
qed

end
