(* ===== verification/Hooks.thy ===== *)
theory Hooks
  imports CorePluginData
begin

text \<open>
  The overridable hooks of \<open>QGCCorePlugin\<close> that keep no state
  (\<open>QGCCorePlugin.cc\<close>, lines 137--140, 150--181, 199--217): \<open>defaultSettings\<close>,
  \<open>overrideSettingsGroupVisibility\<close>, \<open>adjustSettingMetaData\<close>, \<open>paletteOverride\<close>,
  \<open>showAdvancedUIMessage\<close> and \<open>valuesWidgetDefaultSettings\<close>. Reference parameters
  the C++ code writes (\<open>FactMetaData&\<close>, \<open>QStringList&\<close>, \<open>PaletteColorInfo_t&\<close>)
  are passed in and returned. The theorem shows the decision table of
  \<open>adjustSettingMetaData\<close> on every branch.
\<close>

definition defaultSettings :: int where
  "defaultSettings = 0"

definition overrideSettingsGroupVisibility :: "string \<Rightarrow> bool" where
  "overrideSettingsGroupVisibility name = True"

text \<open>
  \<open>adjustSettingMetaData\<close>: the indoor-palette setting gets default 0 on mobile and 1
  elsewhere, telemetry saving gets default false on mobile and true elsewhere; the
  result (show the setting) is true on every path.
\<close>

definition adjustSettingMetaData :: "env \<Rightarrow> FactMetaData \<Rightarrow> bool \<times> FactMetaData" where
  "adjustSettingMetaData E metaData =
     (if fact_name metaData = indoorPaletteName then
        (let outdoorPalette = (if mobile E then QVariantInt 0 else QVariantInt 1)
         in (True, setRawDefaultValue outdoorPalette metaData))
      else if fact_name metaData = telemetrySaveName then
        (if mobile E then (True, setRawDefaultValue (QVariantBool False) metaData)
         else (True, setRawDefaultValue (QVariantBool True) metaData))
      else (True, metaData))"

definition paletteOverride :: "string \<Rightarrow> 'c \<Rightarrow> 'c" where
  "paletteOverride colorName colorInfo = colorInfo"

definition showAdvancedUIMessage :: "env \<Rightarrow> string" where
  "showAdvancedUIMessage E =
     translate E (''WARNING: You are about to enter Advanced Mode. '' @
       ''If used incorrectly, this may cause your vehicle to malfunction thus voiding your warranty. '' @
       ''You should do so only if instructed by customer support. '' @
       ''Are you sure you want to enable Advanced Mode?'')"

definition valuesWidgetDefaultSettings ::
    "string list \<Rightarrow> string list \<Rightarrow> string list \<times> string list" where
  "valuesWidgetDefaultSettings largeValues smallValues =
     (largeValues @ [''Vehicle.altitudeRelative'', ''Vehicle.groundSpeed'', ''Vehicle.flightTime''],
      smallValues)"

subsection \<open>Lemmas\<close>

text \<open>
  C21. \<open>adjustSettingMetaData\<close> always answers true (show the setting) and keeps the
  setting's name; it sets a platform-dependent default for exactly two settings (indoor
  palette: 0 on mobile, 1 on desktop; telemetry saving: off on mobile, on on desktop),
  marks that default available, and leaves the metadata of every other setting unchanged.
\<close>

theorem adjustSettingMetaData_table:
  "fst (adjustSettingMetaData E md) \<and>
   fact_name (snd (adjustSettingMetaData E md)) = fact_name md \<and>
   (fact_name md = indoorPaletteName \<longrightarrow>
      rawDefaultValue (snd (adjustSettingMetaData E md)) = QVariantInt (if mobile E then 0 else 1) \<and>
      defaultValueAvailable (snd (adjustSettingMetaData E md))) \<and>
   (fact_name md = telemetrySaveName \<longrightarrow>
      rawDefaultValue (snd (adjustSettingMetaData E md)) = QVariantBool (\<not> mobile E) \<and>
      defaultValueAvailable (snd (adjustSettingMetaData E md))) \<and>
   (fact_name md \<noteq> indoorPaletteName \<and> fact_name md \<noteq> telemetrySaveName \<longrightarrow>
      snd (adjustSettingMetaData E md) = md)"
  using setting_names_differ
  by (auto simp: adjustSettingMetaData_def setRawDefaultValue_def Let_def)

theorem adjustSettingMetaData_table_witness:
  "fst (adjustSettingMetaData (sample_env False)
          \<lparr>fact_name = telemetrySaveName, rawDefaultValue = QVariantInvalid, defaultValueAvailable = False\<rparr>) \<and>
   rawDefaultValue (snd (adjustSettingMetaData (sample_env False)
          \<lparr>fact_name = telemetrySaveName, rawDefaultValue = QVariantInvalid, defaultValueAvailable = False\<rparr>))
     = QVariantBool True \<and>
   rawDefaultValue (snd (adjustSettingMetaData (sample_env False)
          \<lparr>fact_name = indoorPaletteName, rawDefaultValue = QVariantInvalid, defaultValueAvailable = False\<rparr>))
     = QVariantInt 1 \<and>
   snd (adjustSettingMetaData (sample_env False)
          \<lparr>fact_name = ''Units'', rawDefaultValue = QVariantInvalid, defaultValueAvailable = False\<rparr>)
     = \<lparr>fact_name = ''Units'', rawDefaultValue = QVariantInvalid, defaultValueAvailable = False\<rparr>"
  using adjustSettingMetaData_table
    [of "sample_env False" "\<lparr>fact_name = telemetrySaveName, rawDefaultValue = QVariantInvalid, defaultValueAvailable = False\<rparr>"]
    adjustSettingMetaData_table
    [of "sample_env False" "\<lparr>fact_name = indoorPaletteName, rawDefaultValue = QVariantInvalid, defaultValueAvailable = False\<rparr>"]
    adjustSettingMetaData_table
    [of "sample_env False" "\<lparr>fact_name = ''Units'', rawDefaultValue = QVariantInvalid, defaultValueAvailable = False\<rparr>"]
  by (simp add: sample_env_def indoorPaletteName_def telemetrySaveName_def)

end
