(* ===== verification/Spec2Isabelle.thy ===== *)
theory Spec2Isabelle
  imports Ordering ListReference Hooks
begin

text \<open>
  \<^bold>\<open>A verification model of the default QGroundControl core plugin\<close>
  (\<open>src/src/api/QGCCorePlugin.cc\<close>).

  \<^bold>\<open>The program.\<close> \<open>QGCCorePlugin\<close> is the base class a QGroundControl build
  customises. Its state is a pointer \<open>_p\<close> to a private object \<open>QGCCorePlugin_p\<close>,
  which owns the lazily created settings pages (\<open>QGCSettings*\<close> fields and the list
  \<open>settingsList\<close>) and the lazily created options object \<open>defaultOptions\<close>, plus two
  UI switches \<open>_showTouchAreas\<close> and \<open>_showAdvancedUI\<close> with change signals. Its
  operations are the constructor and destructor, \<open>setToolbox\<close>, the two lazy
  accessors \<open>settingsPages\<close> and \<open>options\<close>, the two switch setters,
  \<open>createRootWindow\<close>, which builds the QML engine of the main window, and a set of
  stateless hooks. The accessors and the destructor are where the C++ code can go
  wrong: they dereference \<open>_p\<close>, allocate, and delete what they allocated.

  \<^bold>\<open>How the model is built.\<close>
  \<^item> \<open>Prelude\<close>: raw pointers (\<open>ptr\<close>), a heap of objects addressed by natural numbers
    with an allocation limit (\<open>heap\<close>, \<open>heap_wf\<close>), and the primitives \<open>new_obj\<close>,
    \<open>deref\<close>, \<open>store\<close>, \<open>delete_obj\<close>, \<open>delete_if\<close> (the source's \<open>if(p) delete p;\<close>)
    and \<open>delete_seq\<close>. Every undefined behaviour these primitives can meet (null or
    dangling dereference, double delete) is a value of \<open>heap_error\<close>, and a
    computation that may fail has the type \<open>'a except\<close>, sequenced with \<open>bindE\<close>.
  \<^item> \<open>QtModel\<close>: the Qt and QGroundControl types the file calls
    (\<open>QUrl\<close>, \<open>QVariant\<close>, \<open>FactMetaData\<close>, \<open>QQmlApplicationEngine\<close>, QML type
    registration, the change signals), modelled from their documented behaviour
    because their code is not part of this repository.
  \<^item> \<open>CorePluginData\<close>: the build configuration \<open>env\<close> (\<open>QT_DEBUG\<close>, \<open>__mobile__\<close>,
    \<open>tr\<close> and the handles \<open>createRootWindow\<close> reads), the record
    \<open>QGCCorePlugin_p\<close> and its constructor and destructor (lines 25--75), the
    plugin state \<open>plugin_state\<close> with its constructor and destructor (lines 77--90),
    and the ownership invariant \<open>plugin_inv\<close>: \<open>_p\<close> names a live private object,
    the heap is well formed, every non-null page field and \<open>defaultOptions\<close> names a
    live object of the right kind, the pages are in \<open>settingsList\<close> in field order,
    and all owned addresses are distinct. \<open>plugin_owned\<close> is the set of addresses the
    plugin will free.
  \<^item> \<open>SettingsPages\<close>: \<open>settingsPages\<close> (lines 100--135) as written, the unrolled
    allocation sequence \<open>populate_pages\<close>, its equivalence with a loop
    \<open>alloc_pages\<close> over the descriptor list \<open>default_settings\<close>, and the refinement of
    the spec's fill-once registry \<open>registry_pages\<close> through \<open>abs_registry\<close>.
  \<^item> \<open>Options\<close>: \<open>options\<close> (lines 142--148).
  \<^item> \<open>UiToggles\<close>: \<open>setShowTouchAreas\<close> and \<open>setShowAdvancedUI\<close> (lines 183--197),
    emitted signals appended to a log \<open>emitted\<close>.
  \<^item> \<open>RootWindow\<close>: \<open>createRootWindow\<close> (lines 219--227), each call through the new
    engine pointer being an \<open>engine_call\<close>, and \<open>setToolbox\<close> (lines 92--98).
  \<^item> \<open>Hooks\<close>: the stateless hooks (lines 137--140, 150--181, 199--217).
  \<^item> \<open>Lifecycle\<close>: the calls a host makes as a datatype \<open>call\<close> with one step
    function \<open>plugin_call\<close>, and the inductive set \<open>reachable\<close> of states: the
    constructor on a well-formed heap holding only objects of the rest of the
    application (\<open>app_obj\<close>), then any interleaving of calls with the rest of
    the application allocating objects of its own and deleting objects the plugin
    does not own (such as the engines \<open>createRootWindow\<close> hands to their parent);
    and \<open>run_calls\<close>, a list of calls made one after the other, stopping at the first
    error.
  \<^item> \<open>Ordering\<close>: what a caller observes of the plugin (\<open>observe\<close>: registry, options
    object, switches, signals), and the order of the two lazy requests.
  \<^item> \<open>ListReference\<close>: writes through the \<open>QVariantList &\<close> that \<open>settingsPages\<close>
    returns (line 134), as \<open>settingsList_write\<close>; they are not part of
    \<open>reachable\<close>, and the theory shows what the code does after one.

  \<^bold>\<open>What is proved.\<close>
  \<^item> The destructor succeeds on every state satisfying the invariant and frees
    exactly the private object, the pages its \<open>settingsList\<close> holds and its options
    object, leaving every other object as it was (C1,
    \<open>QGCCorePlugin_dtor_frees_owned\<close>).
  \<^item> \<open>settingsPages\<close> refines the registry contract (C2); it builds the default pages
    fresh on its first call (C17) and is idempotent (C18).
  \<^item> \<open>options\<close> hands out a single instance (C3), refines the spec's options provider,
    the fresh instance being the allocator's next address (C15), and under the
    invariant returns a live options object and keeps the invariant (C19).
  \<^item> Across the lifecycle, by rule induction over \<open>reachable\<close>: the log of change
    signals is consistent with the switch values (C4); the invariant holds in every
    reachable state, so no call on a reachable plugin meets undefined behaviour (C8),
    and every pointer the plugin holds has its declared C++ type (C10). Once
    \<open>setToolbox\<close> has run in a sequence of calls, the plugin stays C++-owned and both
    QML types stay registered (C16).
  \<^item> Here, in the root theory, the components meet: every object the plugin's code
    allocates stays owned until the destructor, so destroying a reachable plugin
    leaves only objects of the rest of the application on the heap (C5); the plugin
    never keeps more than nine private, settings or options objects on the heap, seven
    in a release build, while the engines it hands out are not bounded (C9);
    in every reachable state the registry is empty or holds exactly the default pages
    (C7); constructing a plugin, running any list of calls (\<open>run_calls\<close>) and
    destroying it gives back every object that existed before, adding only the
    engines handed out (C6); and from every reachable state one request of each kind
    reaches a state that every further request leaves unchanged (C12, liveness).
  \<^item> The two lazy requests commute on what a caller observes (C11).
  \<^item> Through the returned reference: an emptied list is never refilled (C13), and a
    page a caller appends is shown but outlives the plugin (C14).
  \<^item> \<open>createRootWindow\<close> builds the engine the code describes and leaves the plugin's
    objects alone (C20); \<open>adjustSettingMetaData\<close> has the decision table of the
    spec (C21).
  \<^item> C13, C14 and C20 show where the code and the spec part ways: the registry is
    filled on a null \<open>pGeneral\<close>, not on an empty list; pages appended through the
    reference are never freed; the engine is never freed by the plugin.

  \<^bold>\<open>Bounds and fuel.\<close> No operation of the file loops: the page allocation is
  straight-line code of five or seven steps, and its loop form \<open>alloc_pages\<close> is
  structural recursion on a list. No fuel is needed, every operation is total, and
  there is no termination property to state beyond the totality of the \<open>fun\<close>s,
  which Isabelle proves when it accepts them.
  Addresses are unbounded naturals, since the code never computes with them.

  \<^bold>\<open>Not modelled.\<close> Qt internals (the QML engine's loading of resources, the object
  tree deleting the engine with its parent, signal delivery beyond the order of
  emission). The base classes \<open>QGCTool\<close> and \<open>QObject\<close>, of which only the stored
  application and toolbox pointers are kept: \<open>QGCTool(app, toolbox)\<close> makes the
  toolbox the Qt parent and leaves the tool's toolbox pointer null until
  \<open>setToolbox\<close>. The range checks of \<open>FactMetaData::setRawDefaultValue\<close> and the
  heuristics of \<open>QUrl::fromUserInput\<close>, which on the literal resource paths of the
  file return the path unchanged. Writes through the reference to \<open>settingsList\<close> that
  \<open>settingsPages\<close> returns are modelled in \<open>ListReference\<close> but are not steps of
  \<open>reachable\<close>: the lifecycle results hold for hosts that only read the list.
\<close>

subsection \<open>No leak at destruction\<close>

text \<open>
  The property that spans the components: every object the plugin's code allocates
  (private object, settings pages, options object) stays owned until the destructor
  frees it. \<open>unowned_are_app\<close> says that every object outside the owned set belongs to
  the rest of the application; each operation keeps it because \<open>settingsPages\<close> and
  \<open>options\<close> only add fresh objects to the owned set, \<open>createRootWindow\<close> adds an
  engine owned by its parent, and the rest of the application only adds and deletes
  objects of its own.
\<close>

definition unowned_are_app :: "env \<Rightarrow> plugin_state \<Rightarrow> bool" where
  "unowned_are_app E s \<longleftrightarrow>
     (\<forall>b x. objs (heap s) b = Some x \<longrightarrow> b \<notin> plugin_owned E s \<longrightarrow> app_obj x)"

text \<open>
  The registry of the spec holds nothing until the pages are built and exactly the
  default pages afterwards.
\<close>

definition registry_default :: "env \<Rightarrow> plugin_state \<Rightarrow> bool" where
  "registry_default E s \<longleftrightarrow>
     abs_registry s = (if pages_built s then Some (default_settings E) else None)"

text \<open>
  A plugin state extends the heap \<open>h\<close> it was constructed on when the invariant holds,
  every owned object was allocated after construction, every object that existed
  before and is not owned is as it was, and above the old limit the only objects not
  owned are engines.
\<close>

definition extends_heap :: "env \<Rightarrow> obj heap \<Rightarrow> plugin_state \<Rightarrow> bool" where
  "extends_heap E h s \<longleftrightarrow>
     plugin_inv E s \<and> lim h \<le> lim (heap s) \<and> (\<forall>b \<in> plugin_owned E s. lim h \<le> b) \<and>
     (\<forall>b. b \<notin> plugin_owned E s \<longrightarrow>
        (b < lim h \<longrightarrow> objs (heap s) b = objs h b) \<and>
        (lim h \<le> b \<longrightarrow> objs (heap s) b = None \<or> (\<exists>e. objs (heap s) b = Some (EngineObj e))))"

lemma unowned_are_app_grow:
  assumes u: "unowned_are_app E s" and sub: "plugin_owned E s \<subseteq> plugin_owned E s'"
    and same: "\<forall>b. b \<notin> plugin_owned E s' \<longrightarrow> objs (heap s') b = objs (heap s) b"
  shows "unowned_are_app E s'"
  unfolding unowned_are_app_def
proof (intro allI impI)
  fix b x
  assume "objs (heap s') b = Some x" and b: "b \<notin> plugin_owned E s'"
  with same have "objs (heap s) b = Some x" by simp
  moreover from b sub have "b \<notin> plugin_owned E s" by blast
  ultimately show "app_obj x" using u by (simp add: unowned_are_app_def)
qed

lemma unowned_are_app_new:
  assumes u: "unowned_are_app E s" and own: "plugin_owned E s' = plugin_owned E s"
    and h: "objs (heap s') = (objs (heap s))(n \<mapsto> y)" and y: "app_obj y"
  shows "unowned_are_app E s'"
  unfolding unowned_are_app_def
proof (intro allI impI)
  fix b x
  assume bx: "objs (heap s') b = Some x" and b: "b \<notin> plugin_owned E s'"
  show "app_obj x"
  proof (cases "b = n")
    case True
    with bx h y show ?thesis by simp
  next
    case False
    with bx h have "objs (heap s) b = Some x" by simp
    with b own u show ?thesis by (simp add: unowned_are_app_def)
  qed
qed

lemma unowned_are_app_cong:
  "heap s' = heap s \<Longrightarrow> p_ptr s' = p_ptr s \<Longrightarrow> unowned_are_app E s' = unowned_are_app E s"
  by (simp only: unowned_are_app_def plugin_owned_def)

lemma plugin_call_unowned:
  assumes inv: "plugin_inv E s" and u: "unowned_are_app E s"
    and run: "plugin_call E c s = Inr (r, s')"
  shows "unowned_are_app E s'"
proof (cases c)
  case SettingsPagesCall
  with run obtain ps where "settingsPages E s = Inr (ps, s')" by (auto simp: bindE_eq_Inr)
  from settingsPages_owned_step [OF inv this] show ?thesis
    using unowned_are_app_grow [OF u] by blast
next
  case OptionsCall
  with run obtain q where "options s = Inr (q, s')" by (auto simp: bindE_eq_Inr)
  from options_owned_step [OF inv this] show ?thesis
    using unowned_are_app_grow [OF u] by blast
next
  case (CreateRootWindowCall parent)
  with run obtain q where cw: "createRootWindow E parent s = Inr (q, s')" by (auto simp: bindE_eq_Inr)
  then have own: "plugin_owned E s' = plugin_owned E s"
    using createRootWindow_inv_step [OF inv] by blast
  have "objs (heap s') = (objs (heap s))(lim (heap s) \<mapsto> EngineObj (root_engine E parent))"
    using cw createRootWindow_eq [of E parent s] by auto
  with own show ?thesis by (rule unowned_are_app_new [OF u]) simp
next
  case (SetShowTouchAreasCall b)
  with run have "s' = setShowTouchAreas b s" by simp
  then show ?thesis by (auto intro: unowned_are_app_cong [THEN iffD2, OF _ _ u])
next
  case (SetShowAdvancedUICall b)
  with run have "s' = setShowAdvancedUI b s" by simp
  then show ?thesis by (auto intro: unowned_are_app_cong [THEN iffD2, OF _ _ u])
next
  case (SetToolboxCall toolbox)
  with run have "s' = setToolbox toolbox s" by simp
  then show ?thesis
    by (auto intro: unowned_are_app_cong [THEN iffD2, OF _ _ u] simp: setToolbox_def)
qed

lemma unowned_are_app_shrink:
  assumes u: "unowned_are_app E s" and own: "plugin_owned E s' = plugin_owned E s"
    and sub: "\<forall>b x. objs (heap s') b = Some x \<longrightarrow> objs (heap s) b = Some x"
  shows "unowned_are_app E s'"
  using u own sub unfolding unowned_are_app_def by metis

lemma QGCCorePlugin_ctor_owned:
  "plugin_owned E (QGCCorePlugin_ctor app toolbox h) = {lim h}"
  by (simp add: plugin_owned_def QGCCorePlugin_ctor_def new_obj_def owned_ptrs_def built_pages_def
      page_fields_def debug_fields_def QGCCorePlugin_p_ctor_def)

lemma QGCCorePlugin_ctor_unowned:
  assumes "\<forall>x \<in> ran (objs h). app_obj x"
  shows "unowned_are_app E (QGCCorePlugin_ctor app toolbox h)"
  unfolding unowned_are_app_def QGCCorePlugin_ctor_owned
proof (intro allI impI)
  fix b x
  assume bx: "objs (heap (QGCCorePlugin_ctor app toolbox h)) b = Some x" and b: "b \<notin> {lim h}"
  then have "objs h b = Some x" by (simp add: QGCCorePlugin_ctor_def new_obj_def)
  then have "x \<in> ran (objs h)" by (rule ranI)
  with assms show "app_obj x" by blast
qed

lemma foreign_delete_heap:
  "delete_obj (Ptr b) h = Inr h' \<Longrightarrow> objs h' c = Some x \<Longrightarrow> objs h c = Some x"
  by (auto split: option.splits if_splits)

lemma reachable_unowned_are_app: "reachable E s \<Longrightarrow> unowned_are_app E s"
proof (induction rule: reachable.induct)
  case (construct h app toolbox)
  from construct.hyps(2) show ?case by (rule QGCCorePlugin_ctor_unowned)
next
  case (call s c r s')
  then show ?case using plugin_call_unowned reachable_plugin_inv by blast
next
  case (foreign_new s k)
  have inv: "plugin_inv E s" using foreign_new.hyps by (rule reachable_plugin_inv)
  have "objs (heap (s\<lparr>heap := snd (new_obj (ForeignObj k) (heap s))\<rparr>)) =
          (objs (heap s))(lim (heap s) \<mapsto> ForeignObj k)" by (simp add: heap_simps)
  then show ?case by (rule unowned_are_app_new [OF foreign_new.IH foreign_new_owned [OF inv]]) simp
next
  case (foreign_delete s b h')
  have inv: "plugin_inv E s" using foreign_delete.hyps(1) by (rule reachable_plugin_inv)
  show ?case
    using foreign_delete_heap [OF foreign_delete.hyps(3)]
    by (intro unowned_are_app_shrink [OF foreign_delete.IH foreign_delete_owned [OF inv foreign_delete.hyps(2,3)]]) simp
qed

text \<open>
  C5. Destroying a reachable plugin leaks nothing: the destructor succeeds, and every
  object left on the heap belongs to the rest of the application; no settings page,
  options object or private object the plugin's code allocated survives it.
\<close>

theorem reachable_dtor_leaves_no_plugin_object:
  assumes "reachable E s"
  shows "\<exists>h'. QGCCorePlugin_dtor E s = Inr h' \<and> (\<forall>x \<in> ran (objs h'). app_obj x)"
proof -
  have inv: "plugin_inv E s" using assms by (rule reachable_plugin_inv)
  have u: "unowned_are_app E s" using assms by (rule reachable_unowned_are_app)
  have "app_obj x" if "x \<in> ran (objs (heap s) |` (- plugin_owned E s))" for x
  proof -
    from that obtain b where "(objs (heap s) |` (- plugin_owned E s)) b = Some x" by (auto simp: ran_def)
    then have "objs (heap s) b = Some x" and "b \<notin> plugin_owned E s"
      by (auto simp: restrict_map_def split: if_splits)
    with u show ?thesis by (simp add: unowned_are_app_def)
  qed
  then show ?thesis using QGCCorePlugin_dtor_eq [OF inv] by simp
qed

theorem reachable_dtor_leaves_no_plugin_object_witness:
  "reachable (sample_env True) sample_plugin \<and>
   (\<exists>h'. QGCCorePlugin_dtor (sample_env True) sample_plugin = Inr h' \<and> (\<forall>x \<in> ran (objs h'). app_obj x))"
  using reachable_dtor_leaves_no_plugin_object [OF sample_plugin_reachable] sample_plugin_reachable by blast


text \<open>
  C9. The footprint the plugin keeps for itself is bounded, however many calls are made:
  in every reachable state at most nine objects (seven in a release build) are private
  objects, settings pages or options objects. The engines \<open>createRootWindow\<close>
  allocates, one per call, are handed to their Qt parent (\<open>app_obj\<close>) and are not
  counted: their number grows with the calls.
\<close>

theorem reachable_footprint_bound:
  assumes "reachable E s"
  shows "card {b. \<exists>x. objs (heap s) b = Some x \<and> \<not> app_obj x} \<le> (if qt_debug E then 9 else 7)"
proof -
  have u: "unowned_are_app E s" using assms by (rule reachable_unowned_are_app)
  have "{b. \<exists>x. objs (heap s) b = Some x \<and> \<not> app_obj x} \<subseteq> plugin_owned E s"
    using u by (auto simp: unowned_are_app_def)
  moreover have "finite (plugin_owned E s)"
    by (simp add: plugin_owned_def split: ptr.splits option.splits obj.splits)
  ultimately have "card {b. \<exists>x. objs (heap s) b = Some x \<and> \<not> app_obj x} \<le> card (plugin_owned E s)"
    by (rule card_mono [rotated])
  also have "\<dots> \<le> (if qt_debug E then 9 else 7)"
    using reachable_plugin_inv [OF assms] by (rule card_plugin_owned)
  finally show ?thesis .
qed

theorem reachable_footprint_bound_witness:
  "reachable (sample_env False) sample_plugin \<and>
   card {b. \<exists>x. objs (heap sample_plugin) b = Some x \<and> \<not> app_obj x} \<le> (if qt_debug (sample_env False) then 9 else 7)"
  using reachable_footprint_bound [OF sample_plugin_reachable] sample_plugin_reachable by blast

subsection \<open>The registry is filled once, with the default pages\<close>

text \<open>
  \<open>settingsPages\<close> fills the registry on its first call; \<open>options\<close> rewrites the private
  object but not the fields the registry reads; every other operation, and the rest of
  the application, leaves the private object and the pages alone.
\<close>

lemma registry_default_frame:
  assumes "plugin_inv E s" "p_ptr s' = p_ptr s"
    "\<forall>b \<in> plugin_owned E s. objs (heap s') b = objs (heap s) b" "registry_default E s"
  shows "registry_default E s'"
  using abs_registry_frame [OF assms(1-3)] assms(4) by (simp add: registry_default_def)

lemma plugin_call_registry:
  assumes inv: "plugin_inv E s" and reg: "registry_default E s"
    and run: "plugin_call E c s = Inr (r, s')"
  shows "registry_default E s'"
proof (cases c)
  case SettingsPagesCall
  with run obtain ps where sp: "settingsPages E s = Inr (ps, s')" by (auto simp: bindE_eq_Inr)
  show ?thesis
  proof (cases "pages_built s")
    case True
    then obtain d where "deref_priv (p_ptr s) (heap s) = Inr d" "pGeneral d \<noteq> NULL"
      by (auto simp: pages_built_def split: sum.splits)
    then have "s' = s" using settingsPages_built [of s d E] sp by simp
    with reg show ?thesis by simp
  next
    case False
    from settingsPages_fresh_registry [OF inv False sp] show ?thesis
      by (simp add: registry_default_def)
  qed
next
  case OptionsCall
  with run obtain q where "options s = Inr (q, s')" by (auto simp: bindE_eq_Inr)
  from options_registry [OF inv this] reg show ?thesis by (simp add: registry_default_def)
next
  case (CreateRootWindowCall parent)
  with run obtain q where cw: "createRootWindow E parent s = Inr (q, s')" by (auto simp: bindE_eq_Inr)
  then have "q = Ptr (lim (heap s))" and notin: "lim (heap s) \<notin> plugin_owned E s"
    using createRootWindow_inv_step [OF inv] by blast+
  have "p_ptr s' = p_ptr s" by (subst createRootWindow_heap_only [OF cw]) simp
  moreover have "\<forall>b \<in> plugin_owned E s. objs (heap s') b = objs (heap s) b"
    using cw createRootWindow_eq [of E parent s] notin by auto
  ultimately show ?thesis by (rule registry_default_frame [OF inv _ _ reg])
next
  case (SetShowTouchAreasCall b)
  with run have "s' = setShowTouchAreas b s" by simp
  then show ?thesis by (auto intro: registry_default_frame [OF inv _ _ reg])
next
  case (SetShowAdvancedUICall b)
  with run have "s' = setShowAdvancedUI b s" by simp
  then show ?thesis by (auto intro: registry_default_frame [OF inv _ _ reg])
next
  case (SetToolboxCall toolbox)
  with run have "s' = setToolbox toolbox s" by simp
  then show ?thesis by (auto intro: registry_default_frame [OF inv _ _ reg] simp: setToolbox_def)
qed

lemma reachable_registry_default: "reachable E s \<Longrightarrow> registry_default E s"
proof (induction rule: reachable.induct)
  case (construct h app toolbox)
  show ?case
    by (simp add: registry_default_def abs_registry_def pages_built_def QGCCorePlugin_ctor_def
        new_obj_def QGCCorePlugin_p_ctor_def)
next
  case (call s c r s')
  then show ?case using plugin_call_registry reachable_plugin_inv by blast
next
  case (foreign_new s k)
  have inv: "plugin_inv E s" using foreign_new.hyps by (rule reachable_plugin_inv)
  from foreign_new_frame [OF inv] show ?case
    by (intro registry_default_frame [OF inv _ _ foreign_new.IH]) simp_all
next
  case (foreign_delete s b h')
  have inv: "plugin_inv E s" using foreign_delete.hyps(1) by (rule reachable_plugin_inv)
  from foreign_delete_frame [OF foreign_delete.hyps(2,3)] show ?case
    by (intro registry_default_frame [OF inv _ _ foreign_delete.IH]) simp_all
qed

text \<open>
  C7. The registry is populated at most once and only with the default set: in every
  reachable state it is empty while the pages were never built, and holds exactly the
  default pages, in display order, once they were.
\<close>

theorem reachable_registry_filled_once:
  assumes "reachable E s"
  shows "abs_registry s = (if pages_built s then Some (default_settings E) else None)"
  using reachable_registry_default [OF assms] by (simp add: registry_default_def)

theorem reachable_registry_filled_once_witness:
  "reachable (sample_env True) sample_plugin \<and>
   abs_registry sample_plugin =
     (if pages_built sample_plugin then Some (default_settings (sample_env True)) else None) \<and>
   (\<exists>ps s'. settingsPages (sample_env True) sample_plugin = Inr (ps, s') \<and> reachable (sample_env True) s' \<and>
      abs_registry s' = (if pages_built s' then Some (default_settings (sample_env True)) else None))"
proof -
  obtain ps s' where run: "settingsPages (sample_env True) sample_plugin = Inr (ps, s')"
    using settingsPages_returns [OF sample_plugin_inv] by fastforce
  then have "plugin_call (sample_env True) SettingsPagesCall sample_plugin = Inr (ListResult ps, s')"
    by simp
  then have r: "reachable (sample_env True) s'" by (rule reachable.call [OF sample_plugin_reachable])
  show ?thesis
    using run r sample_plugin_reachable reachable_registry_filled_once [OF sample_plugin_reachable]
      reachable_registry_filled_once [OF r]
    by blast
qed


subsection \<open>Construct, use, destroy\<close>

text \<open>
  A run of calls from the constructor, as a host makes it, keeps \<open>extends_heap\<close>:
  \<open>settingsPages\<close> and \<open>options\<close> own only what they allocate, \<open>createRootWindow\<close>
  adds an engine above the old limit, and the switches do not touch the heap.
\<close>

lemma extends_heap_grow:
  assumes ext: "extends_heap E h s" and inv': "plugin_inv E s'"
    and sub: "plugin_owned E s \<subseteq> plugin_owned E s'"
    and same: "\<forall>b. b \<notin> plugin_owned E s' \<longrightarrow> objs (heap s') b = objs (heap s) b"
    and lim: "lim (heap s) \<le> lim (heap s')"
    and new: "plugin_owned E s' \<subseteq> plugin_owned E s \<union> {lim (heap s)..<lim (heap s')}"
  shows "extends_heap E h s'"
proof -
  have ge: "\<forall>b \<in> plugin_owned E s'. lim h \<le> b"
    using new ext by (auto simp: extends_heap_def)
  have unowned: "(b < lim h \<longrightarrow> objs (heap s') b = objs h b) \<and>
      (lim h \<le> b \<longrightarrow> objs (heap s') b = None \<or> (\<exists>e. objs (heap s') b = Some (EngineObj e)))"
    if b: "b \<notin> plugin_owned E s'" for b
  proof -
    from b sub have "b \<notin> plugin_owned E s" by blast
    with ext have "(b < lim h \<longrightarrow> objs (heap s) b = objs h b) \<and>
        (lim h \<le> b \<longrightarrow> objs (heap s) b = None \<or> (\<exists>e. objs (heap s) b = Some (EngineObj e)))"
      by (simp add: extends_heap_def)
    moreover from b same have "objs (heap s') b = objs (heap s) b" by simp
    ultimately show ?thesis by simp
  qed
  have "lim h \<le> lim (heap s')" using ext lim by (simp add: extends_heap_def)
  with inv' ge unowned show ?thesis unfolding extends_heap_def by blast
qed

lemma extends_heap_engine:
  assumes ext: "extends_heap E h s" and inv': "plugin_inv E s'"
    and own: "plugin_owned E s' = plugin_owned E s"
    and objs': "objs (heap s') = (objs (heap s))(lim (heap s) \<mapsto> EngineObj e)"
    and lim: "lim (heap s) \<le> lim (heap s')"
  shows "extends_heap E h s'"
  unfolding extends_heap_def
proof (intro conjI allI impI)
  show "plugin_inv E s'" by (rule inv')
  show "lim h \<le> lim (heap s')" using ext lim by (simp add: extends_heap_def)
  show "\<forall>b \<in> plugin_owned E s'. lim h \<le> b" using ext own by (simp add: extends_heap_def)
next
  fix b
  assume b: "b \<notin> plugin_owned E s'"
  have hs: "lim h \<le> lim (heap s)" using ext by (simp add: extends_heap_def)
  from b own ext have old: "(b < lim h \<longrightarrow> objs (heap s) b = objs h b) \<and>
        (lim h \<le> b \<longrightarrow> objs (heap s) b = None \<or> (\<exists>e. objs (heap s) b = Some (EngineObj e)))"
    by (simp add: extends_heap_def)
  {
    assume "b < lim h"
    with hs have "b \<noteq> lim (heap s)" by simp
    with old objs' \<open>b < lim h\<close> show "objs (heap s') b = objs h b" by simp
  next
    assume "lim h \<le> b"
    with old objs' show "objs (heap s') b = None \<or> (\<exists>e. objs (heap s') b = Some (EngineObj e))"
      by (cases "b = lim (heap s)") auto
  }
qed

lemma extends_heap_cong:
  "heap s' = heap s \<Longrightarrow> p_ptr s' = p_ptr s \<Longrightarrow> extends_heap E h s' = extends_heap E h s"
  by (simp only: extends_heap_def plugin_inv_def plugin_owned_def)

lemma plugin_call_extends_heap:
  assumes ext: "extends_heap E h s" and run: "plugin_call E c s = Inr (r, s')"
  shows "extends_heap E h s'"
proof -
  have inv: "plugin_inv E s" using ext by (simp add: extends_heap_def)
  have inv': "plugin_inv E s'" using inv run by (rule plugin_call_inv)
  show ?thesis
  proof (cases c)
    case SettingsPagesCall
    with run obtain ps where "settingsPages E s = Inr (ps, s')" by (auto simp: bindE_eq_Inr)
    from settingsPages_owned_step [OF inv this] show ?thesis
      using extends_heap_grow [OF ext inv'] by blast
  next
    case OptionsCall
    with run obtain q where "options s = Inr (q, s')" by (auto simp: bindE_eq_Inr)
    from options_owned_step [OF inv this] show ?thesis
      using extends_heap_grow [OF ext inv'] by blast
  next
    case (CreateRootWindowCall parent)
    with run obtain q where cw: "createRootWindow E parent s = Inr (q, s')" by (auto simp: bindE_eq_Inr)
    then have own: "plugin_owned E s' = plugin_owned E s"
      using createRootWindow_inv_step [OF inv] by blast
    have "objs (heap s') = (objs (heap s))(lim (heap s) \<mapsto> EngineObj (root_engine E parent))"
      and "lim (heap s) \<le> lim (heap s')"
      using cw createRootWindow_eq [of E parent s] by auto
    then show ?thesis by (rule extends_heap_engine [OF ext inv' own])
  next
    case (SetShowTouchAreasCall b)
    with run have "s' = setShowTouchAreas b s" by simp
    then show ?thesis by (auto intro: extends_heap_cong [THEN iffD2, OF _ _ ext])
  next
    case (SetShowAdvancedUICall b)
    with run have "s' = setShowAdvancedUI b s" by simp
    then show ?thesis by (auto intro: extends_heap_cong [THEN iffD2, OF _ _ ext])
  next
    case (SetToolboxCall toolbox)
    with run have "s' = setToolbox toolbox s" by simp
    then show ?thesis by (auto intro: extends_heap_cong [THEN iffD2, OF _ _ ext] simp: setToolbox_def)
  qed
qed

lemma run_calls_extends_heap:
  "extends_heap E h s \<Longrightarrow> \<exists>rs s'. run_calls E s cs = Inr (rs, s') \<and> extends_heap E h s'"
proof (induction cs arbitrary: s)
  case Nil
  then show ?case by simp
next
  case (Cons c cs)
  have "plugin_inv E s" using Cons.prems by (simp add: extends_heap_def)
  then obtain r s1 where c: "plugin_call E c s = Inr (r, s1)" using plugin_call_returns by blast
  have "extends_heap E h s1" using Cons.prems c by (rule plugin_call_extends_heap)
  then obtain rs s' where "run_calls E s1 cs = Inr (rs, s')" and "extends_heap E h s'"
    using Cons.IH by blast
  with c show ?case by auto
qed

lemma QGCCorePlugin_ctor_extends_heap:
  assumes wf: "heap_wf h"
  shows "extends_heap E h (QGCCorePlugin_ctor app toolbox h)"
proof -
  let ?s = "QGCCorePlugin_ctor app toolbox h"
  have objs: "objs (heap ?s) = (objs h)(lim h \<mapsto> PrivObj QGCCorePlugin_p_ctor)"
    and lim: "lim (heap ?s) = Suc (lim h)"
    by (simp_all add: QGCCorePlugin_ctor_def new_obj_def)
  have "objs (heap ?s) b = None" if "lim h \<le> b" "b \<noteq> lim h" for b
    using objs heap_wf_above [OF wf that(1)] that(2) by simp
  then show ?thesis
    using QGCCorePlugin_ctor_inv [OF wf] objs lim
    by (auto simp: extends_heap_def QGCCorePlugin_ctor_owned)
qed

text \<open>
  C6. Construct, use, destroy: whatever sequence of calls a host makes on a plugin
  constructed on a well-formed heap, every call returns, the destructor succeeds, and
  it leaves every object that existed before construction as it was and, above the
  old allocation limit, nothing but the engines \<open>createRootWindow\<close> handed out.
\<close>

theorem construct_run_destroy:
  assumes wf: "heap_wf h"
  shows "\<exists>rs s h'. run_calls E (QGCCorePlugin_ctor app toolbox h) cs = Inr (rs, s) \<and>
           QGCCorePlugin_dtor E s = Inr h' \<and>
           (\<forall>b < lim h. objs h' b = objs h b) \<and>
           (\<forall>b. lim h \<le> b \<longrightarrow> objs h' b = None \<or> (\<exists>e. objs h' b = Some (EngineObj e)))"
proof -
  obtain rs s where run: "run_calls E (QGCCorePlugin_ctor app toolbox h) cs = Inr (rs, s)"
    and ext: "extends_heap E h s"
    using run_calls_extends_heap [OF QGCCorePlugin_ctor_extends_heap [OF wf]] by blast
  have inv: "plugin_inv E s" using ext by (simp add: extends_heap_def)
  let ?h' = "(heap s)\<lparr>objs := objs (heap s) |` (- plugin_owned E s)\<rparr>"
  have "objs ?h' b = objs h b" if "b < lim h" for b
  proof -
    from that ext have "b \<notin> plugin_owned E s" by (auto simp: extends_heap_def)
    with that ext show ?thesis by (simp add: extends_heap_def)
  qed
  moreover have "objs ?h' b = None \<or> (\<exists>e. objs ?h' b = Some (EngineObj e))" if "lim h \<le> b" for b
    using that ext by (cases "b \<in> plugin_owned E s") (simp_all add: extends_heap_def)
  ultimately show ?thesis using run QGCCorePlugin_dtor_eq [OF inv] by blast
qed

theorem construct_run_destroy_witness:
  "heap_wf (\<lparr>objs = [0 \<mapsto> ForeignObj 7], lim = 1\<rparr> :: obj heap) \<and>
   (\<exists>rs s h'. run_calls (sample_env True) (QGCCorePlugin_ctor NULL NULL \<lparr>objs = [0 \<mapsto> ForeignObj 7], lim = 1\<rparr>)
       [SettingsPagesCall, OptionsCall, CreateRootWindowCall NULL, SettingsPagesCall] = Inr (rs, s) \<and>
     QGCCorePlugin_dtor (sample_env True) s = Inr h' \<and> objs h' 0 = Some (ForeignObj 7))"
proof -
  have wf: "heap_wf (\<lparr>objs = [0 \<mapsto> ForeignObj 7], lim = 1\<rparr> :: obj heap)" by (simp add: heap_wf_def)
  show ?thesis
    using construct_run_destroy [OF wf, of "sample_env True" NULL NULL
        "[SettingsPagesCall, OptionsCall, CreateRootWindowCall NULL, SettingsPagesCall]"] wf
    by fastforce
qed


subsection \<open>Every lazy request is served, and the plugin settles\<close>

text \<open>
  C12. The lazy requests are served and the plugin settles: from every reachable state,
  one request for the settings pages and one for the options succeed and reach a state
  whose registry holds exactly the default pages and which has an options object, and
  in which every further request of either kind returns without changing anything.
\<close>

theorem reachable_requests_settle:
  assumes r: "reachable E s"
  shows "\<exists>rs s'. run_calls E s [SettingsPagesCall, OptionsCall] = Inr (rs, s') \<and>
           abs_registry s' = Some (default_settings E) \<and> options_of s' \<noteq> None \<and>
           (\<exists>ps. settingsPages E s' = Inr (ps, s')) \<and> (\<exists>q. options s' = Inr (q, s'))"
proof -
  have inv: "plugin_inv E s" using r by (rule reachable_plugin_inv)
  obtain ps s1 where a1: "settingsPages E s = Inr (ps, s1)" using settingsPages_returns [OF inv] by fastforce
  have inv1: "plugin_inv E s1" using inv a1 by (rule settingsPages_inv_step)
  obtain q s2 where a2: "options s1 = Inr (q, s2)" using options_returns [OF inv1] by fastforce
  have run: "run_calls E s [SettingsPagesCall, OptionsCall] = Inr ([ListResult ps, PtrResult q], s2)"
    using a1 a2 by simp
  have r2: "reachable E s2" using r run by (rule run_calls_reachable)
  have built: "pages_built s2"
    using settingsPages_options_of [OF inv a1] options_registry [OF inv1 a2] by simp
  have opt: "options_of s2 \<noteq> None" using options_options_of [OF inv1 a2] by simp
  have "abs_registry s2 = Some (default_settings E)"
    using reachable_registry_default [OF r2] built by (simp add: registry_default_def)
  with run built opt settled_stable [OF built opt, of E] show ?thesis by blast
qed

theorem reachable_requests_settle_witness:
  "reachable (sample_env False) sample_plugin \<and>
   (\<exists>rs s'. run_calls (sample_env False) sample_plugin [SettingsPagesCall, OptionsCall] = Inr (rs, s') \<and>
      abs_registry s' = Some (default_settings (sample_env False)) \<and> options_of s' \<noteq> None)"
  using reachable_requests_settle [OF sample_plugin_reachable] sample_plugin_reachable by blast

end
